theory Spec2Isabelle
  imports Complex_Main "HOL-Library.Word"
begin

unbundle bit_operations_syntax

section \<open>The combo-box cell editor (src/cellEditors/ComboBox.js)\<close>

text \<open>
  A combo box is a text box with a drop-down. The drop-down holds a control area with
  one toggle per mode and a select list. The editor object (\<open>this\<close>) and the parts
  of the DOM it reads and writes are one record, passed through every function and
  returned updated. A function that can raise returns an \<open>outcome\<close>: the state it
  returned with, or the error together with the state at the moment of the throw (a
  JavaScript exception does not undo the assignments made before it).
\<close>

subsection \<open>Data\<close>

datatype js_error = TypeError | IndexSizeError | SyntaxError

text \<open>
  The values of JavaScript. A number is \<open>NaN\<close>, an infinity, or finite, and then it is
  given by its exact value (every finite double is a rational; the two zeros are one
  here, which no conversion below tells apart). An object or a function is a name.
\<close>

datatype jsnum = Finite rat | NaN | PosInfinity | NegInfinity

datatype jsval = JUndefined | JNull | JBool bool | JNum jsnum | JStr string | JObj string

text \<open>The computed values of the CSS property \<open>visibility\<close>.\<close>

datatype visibility = Visible | Hidden | Collapse

datatype action = SlideDown | SlideUp

text \<open>
  The one function ever handed to \<open>this.transit\<close>:
  \<^verbatim>\<open>function(el) { el.style.visibility = 'hidden'; }\<close>
\<close>

datatype callback = HideElement

text \<open>
  Functions made by \<open>bind\<close>: every call of \<open>bind\<close> makes a new function object,
  told apart here by a serial number.
\<close>

datatype listener = SlideUpFn nat | OnModeIconClickFn nat

text \<open>
  An element below the select list or the control area: \<open>display\<close> is
  \<open>el.style.display\<close>, \<open>None\<close> once it has been assigned \<open>null\<close>.
\<close>

record element =
  tagName :: string
  classList :: "string list"
  label :: string
  display :: "string option"

text \<open>
  An entry of \<open>this.modes\<close>. A property that is absent (or the empty string, which
  the code's truth tests treat alike) is \<open>None\<close>. \<open>appendOptions\<close> is the mode's
  own function: it is given the elements of the select list and the position of the
  optgroup it was handed (\<open>None\<close> when it was handed none), and returns the elements it
  appends and its return value, whatever that is.
\<close>

record mode =
  name :: string
  modeLabel :: "string option"
  selector :: "string option"
  appendOptions :: "(element list \<Rightarrow> nat option \<Rightarrow> element list \<times> jsval) option"

text \<open>
  What the browser and the language do and this repository does not: whether a
  selector is valid and which elements it matches (\<open>None\<close> for a selector that
  \<open>querySelector\<close> refuses with a \<open>SyntaxError\<close>), the number read from a string or an
  object, and the text of an object or of a number that is not a small integer.
  Converting an object runs the object's own methods; they are taken to return, and to
  change nothing.
\<close>

record browser =
  matches :: "string \<Rightarrow> (element \<Rightarrow> bool) option"
  numberOf :: "jsval \<Rightarrow> jsnum"
  textOf :: "jsval \<Rightarrow> string"

text \<open>
  The editor. \<open>menuModesSource\<close> and \<open>menuModes\<close> are objects used as maps from mode
  names to flags: each is the map of its own properties, and beside each stands the map
  of the properties it inherits, which \<open>in\<close> and a read find too. \<open>menuModes\<close> is the
  \<open>{}\<close> that \<open>showEditor\<close> makes, so it inherits from \<open>Object.prototype\<close>. Inherited
  properties are data properties that can be shadowed by assignment, as those of
  \<open>Object.prototype\<close> are; its one accessor, \<open>__proto__\<close>, is in neither map.
\<close>

record combo =
  modes :: "mode list"
  menuModesSource :: "string \<rightharpoonup> jsval"
  menuModesSourceInherited :: "string \<rightharpoonup> jsval"
  menuModes :: "string \<rightharpoonup> jsval"
  objectPrototype :: "string \<rightharpoonup> jsval"
  controls :: "element list"
  controlsListeners :: "(string \<times> listener) list"
  dropdown :: "element list"
  dropdownValue :: string
  dropdownSize :: nat
  dropdownStyleSelectedIndex :: "int option"
  dropdownStyleScrollTop :: "int option"
  optionsVisibility :: visibility
  optionsHeight :: nat
  elDisplay :: "string option"
  elCursor :: "string option"
  timers :: "nat list"
  inputValue :: string
  inputSelectionStart :: nat
  inputSelectionEnd :: nat
  inputFocused :: bool
  inputListeners :: "(string \<times> listener) list"
  selectionStart :: "nat option"
  selectionEnd :: "nat option"
  slideUpBound :: "listener option"
  bindSerial :: nat
  transitionInProgress :: bool
  transitionCallback :: "callback option"

datatype outcome = Done combo | Thrown js_error combo

fun stateOf :: "outcome \<Rightarrow> combo" where
  "stateOf (Done s) = s"
| "stateOf (Thrown e s) = s"

fun threw :: "outcome \<Rightarrow> js_error option" where
  "threw (Done s) = None"
| "threw (Thrown e s) = Some e"

subsection \<open>Event listeners\<close>

text \<open>
  \<open>addEventListener\<close> does not register the same function twice for one event type;
  \<open>removeEventListener\<close> takes the registration away, and does nothing when the
  function handed to it is \<open>undefined\<close>.
\<close>

definition addEventListener :: "string \<Rightarrow> listener \<Rightarrow> (string \<times> listener) list \<Rightarrow> (string \<times> listener) list" where
  "addEventListener ty f ls = (if (ty, f) \<in> set ls then ls else ls @ [(ty, f)])"

definition removeEventListener :: "string \<Rightarrow> listener option \<Rightarrow> (string \<times> listener) list \<Rightarrow> (string \<times> listener) list" where
  "removeEventListener ty f ls = (case f of None \<Rightarrow> ls | Some g \<Rightarrow> removeAll (ty, g) ls)"

subsection \<open>The transition signal\<close>

text \<open>
  Modelled from the spec: \<open>lib/queueless\<close>, whose result is \<open>this.transit\<close>, is not
  under src/. The spec calls it a transition-completion signal and a transition lock; the
  calls in ComboBox.js say "schedule the transition flag" and "schedule the hide to occur
  after the slide up effect". So: called with no argument it returns whether a transition
  is in flight and changes nothing; called with \<open>null\<close> or a function it raises the flag
  and keeps the function; when the transition of the options pane ends, the function
  kept (if any) is called on the pane and the flag is lowered.
\<close>

definition transit :: "combo \<Rightarrow> bool" where
  "transit s = transitionInProgress s"

definition transitWith :: "callback option \<Rightarrow> combo \<Rightarrow> combo" where
  "transitWith cb s = s\<lparr>transitionInProgress := True, transitionCallback := cb\<rparr>"

fun callBack :: "callback \<Rightarrow> combo \<Rightarrow> combo" where
  "callBack HideElement s = s\<lparr>optionsVisibility := Hidden\<rparr>"

definition transitionEnd :: "combo \<Rightarrow> combo" where
  "transitionEnd s =
     (if transitionInProgress s
      then (case transitionCallback s of None \<Rightarrow> s | Some cb \<Rightarrow> callBack cb s)
             \<lparr>transitionInProgress := False, transitionCallback := None\<rparr>
      else s)"

subsection \<open>Opening and closing the drop-down\<close>

text \<open>
  \<^verbatim>\<open>var stateToActionMap = { hidden: slideDown, visible: slideUp };\<close>
\<close>

fun stateToActionMap :: "visibility \<Rightarrow> action option" where
  "stateToActionMap Hidden = Some SlideDown"
| "stateToActionMap Visible = Some SlideUp"
| "stateToActionMap Collapse = None"

text \<open>
  \<open>window.getComputedStyle(this.dropdown).visibility\<close>: the select list has no
  visibility of its own, and \<open>visibility\<close> is inherited, so it is the visibility of
  the options pane around it.
\<close>

definition computedVisibility :: "combo \<Rightarrow> visibility" where
  "computedVisibility s = optionsVisibility s"

definition slideDown :: "combo \<Rightarrow> combo" where
  "slideDown s =
     transitWith None
       (s\<lparr>selectionStart := Some (inputSelectionStart s),
          selectionEnd := Some (inputSelectionEnd s),
          dropdownStyleSelectedIndex := Some (- 1),
          dropdownStyleScrollTop := Some 0,
          optionsVisibility := Visible,
          optionsHeight := 2 + 15 + dropdownSize s * 15 + 2,
          inputListeners := addEventListener ''mousedown'' (SlideUpFn (bindSerial s)) (inputListeners s),
          slideUpBound := Some (SlideUpFn (bindSerial s)),
          bindSerial := Suc (bindSerial s)\<rparr>)"

definition slideUp :: "combo \<Rightarrow> combo" where
  "slideUp s =
     transitWith (Some HideElement)
       (s\<lparr>inputListeners := removeEventListener ''mousedown'' (slideUpBound s) (inputListeners s),
          optionsHeight := 0\<rparr>)"

fun perform :: "action \<Rightarrow> combo \<Rightarrow> combo" where
  "perform SlideDown s = slideDown s"
| "perform SlideUp s = slideUp s"

definition toggleDropDown :: "combo \<Rightarrow> outcome" where
  "toggleDropDown s =
     (let transitionInProgress = transit s in
      if \<not> transitionInProgress
      then (case stateToActionMap (computedVisibility s) of
              None \<Rightarrow> Thrown TypeError s
            | Some a \<Rightarrow> Done (perform a s))
      else Done s)"

subsection \<open>Values and their conversions\<close>

text \<open>
  \<open>ToBoolean\<close>, which \<open>!!state\<close> and \<open>if (state)\<close> apply: \<open>undefined\<close>, \<open>null\<close>,
  \<open>false\<close>, zero, \<open>NaN\<close> and the empty string are false, everything else is true.
\<close>

fun truthy :: "jsval \<Rightarrow> bool" where
  "truthy JUndefined = False"
| "truthy JNull = False"
| "truthy (JBool b) = b"
| "truthy (JNum n) = (n \<noteq> Finite 0 \<and> n \<noteq> NaN)"
| "truthy (JStr s) = (s \<noteq> [])"
| "truthy (JObj n) = True"

text \<open>\<open>ToNumber\<close>; the browser reads strings and objects.\<close>

fun toNumber :: "browser \<Rightarrow> jsval \<Rightarrow> jsnum" where
  "toNumber B JUndefined = NaN"
| "toNumber B JNull = Finite 0"
| "toNumber B (JBool b) = Finite (if b then 1 else 0)"
| "toNumber B (JNum n) = n"
| "toNumber B (JStr s) = numberOf B (JStr s)"
| "toNumber B (JObj n) = numberOf B (JObj n)"

text \<open>
  \<open>ToInt32\<close>: \<open>NaN\<close> and the infinities give 0; a finite number is cut towards zero
  and taken modulo \<open>2^32\<close>. The 32-bit integer as a number again.
\<close>

fun int32Of :: "jsnum \<Rightarrow> 32 word" where
  "int32Of (Finite r) = word_of_int (if r < 0 then \<lceil>r\<rceil> else \<lfloor>r\<rfloor>)"
| "int32Of NaN = 0"
| "int32Of PosInfinity = 0"
| "int32Of NegInfinity = 0"

definition toInt32 :: "browser \<Rightarrow> jsval \<Rightarrow> 32 word" where
  "toInt32 B v = int32Of (toNumber B v)"

definition int32Value :: "32 word \<Rightarrow> jsval" where
  "int32Value w = JNum (Finite (of_int (sint w)))"

text \<open>The value that \<open>x ^= 1\<close> stores, given the value of \<open>x\<close>.\<close>

definition xor1 :: "browser \<Rightarrow> jsval \<Rightarrow> jsval" where
  "xor1 B v = int32Value (toInt32 B v XOR 1)"

text \<open>
  Reading a property (\<open>undefined\<close> when there is none) and \<open>in\<close>, on an object given
  by its own and its inherited properties.
\<close>

definition getProp :: "(string \<rightharpoonup> jsval) \<Rightarrow> (string \<rightharpoonup> jsval) \<Rightarrow> string \<Rightarrow> jsval" where
  "getProp own inherited k = (case (inherited ++ own) k of None \<Rightarrow> JUndefined | Some v \<Rightarrow> v)"

definition hasProp :: "(string \<rightharpoonup> jsval) \<Rightarrow> (string \<rightharpoonup> jsval) \<Rightarrow> string \<Rightarrow> bool" where
  "hasProp own inherited k = (k \<in> dom (inherited ++ own))"

text \<open>
  The decimal digits of a natural number, and \<open>ToString\<close>. An integer below \<open>2^53\<close>
  in size prints as its digits. Any other number (a fraction, or a number so large that
  JavaScript rounds its digits or writes an exponent) prints as the browser says, and so
  does an object.
\<close>

definition digitChar :: "nat \<Rightarrow> char" where
  "digitChar d = ''0123456789'' ! d"

function digits :: "nat \<Rightarrow> string" where
  "digits n = (if n < 10 then [digitChar n] else digits (n div 10) @ [digitChar (n mod 10)])"
  by pat_completeness auto
termination
  by (relation "measure id") auto

declare digits.simps [simp del]

fun numberToString :: "browser \<Rightarrow> jsnum \<Rightarrow> string" where
  "numberToString B NaN = ''NaN''"
| "numberToString B PosInfinity = ''Infinity''"
| "numberToString B NegInfinity = ''-Infinity''"
| "numberToString B (Finite r) =
     (if r = of_int \<lfloor>r\<rfloor> \<and> \<bar>r\<bar> < 2 ^ 53
      then (if r < 0 then CHR ''-'' # digits (nat (- \<lfloor>r\<rfloor>)) else digits (nat \<lfloor>r\<rfloor>))
      else textOf B (JNum (Finite r)))"

fun toString :: "browser \<Rightarrow> jsval \<Rightarrow> string" where
  "toString B JUndefined = ''undefined''"
| "toString B JNull = ''null''"
| "toString B (JBool b) = (if b then ''true'' else ''false'')"
| "toString B (JNum n) = numberToString B n"
| "toString B (JStr s) = s"
| "toString B (JObj n) = textOf B (JObj n)"

subsection \<open>Mode toggles and option groups\<close>

definition TOGGLE_MODE_PREFIX :: string where
  "TOGGLE_MODE_PREFIX = ''toggle-mode-''"

text \<open>\<open>className.indexOf(TOGGLE_MODE_PREFIX) === 0\<close>\<close>

definition startsWithPrefix :: "string \<Rightarrow> bool" where
  "startsWithPrefix className = (take (length TOGGLE_MODE_PREFIX) className = TOGGLE_MODE_PREFIX)"

text \<open>\<open>classList.toggle(token, force)\<close>\<close>

definition classListToggle :: "string \<Rightarrow> bool \<Rightarrow> string list \<Rightarrow> string list" where
  "classListToggle token force cs =
     (if force then (if token \<in> set cs then cs else cs @ [token]) else removeAll token cs)"

text \<open>
  The class list that assigning \<open>className\<close> gives: the string is split at white space
  (space, tab, line feed, form feed, carriage return), and a class that comes again is
  left out.
\<close>

definition isSpace :: "char \<Rightarrow> bool" where
  "isSpace c = (c \<in> set [CHR '' '', CHR 0x09, CHR 0x0A, CHR 0x0C, CHR 0x0D])"

fun tokens :: "string \<Rightarrow> string \<Rightarrow> string list" where
  "tokens cur [] = (if cur = [] then [] else [cur])"
| "tokens cur (c # cs) =
     (if isSpace c then (if cur = [] then tokens [] cs else cur # tokens [] cs)
      else tokens (cur @ [c]) cs)"

definition classNameTokens :: "string \<Rightarrow> string list" where
  "classNameTokens className = rev (remdups (rev (tokens [] className)))"

definition isDigit :: "char \<Rightarrow> bool" where
  "isDigit c = (c \<in> set ''0123456789'')"

text \<open>
  \<^verbatim>\<open>label.replace(/ \(\d+\)$/, '')\<close>: a match ends the string, so it is read from
  the end: a closing parenthesis, one digit or more, an opening parenthesis, a space.
\<close>

definition removeOldSum :: "string \<Rightarrow> string" where
  "removeOldSum l =
     (case rev l of
        [] \<Rightarrow> l
      | c # r \<Rightarrow>
          if c = CHR '')'' \<and> takeWhile isDigit r \<noteq> [] \<and>
             take 2 (dropWhile isDigit r) = [CHR ''('', CHR '' '']
          then rev (drop 2 (dropWhile isDigit r))
          else l)"

text \<open>\<^verbatim>\<open>label += ' (' + sum + ')'\<close> after the old sum has been removed.\<close>

definition updateSum :: "browser \<Rightarrow> jsval \<Rightarrow> string \<Rightarrow> string" where
  "updateSum B sm l = removeOldSum l @ '' ('' @ toString B sm @ '')''"

text \<open>
  \<open>querySelector\<close> gives the first element that matches, by its position, or none;
  it raises a \<open>SyntaxError\<close> on a selector that is not valid.
\<close>

fun findIndex :: "('a \<Rightarrow> bool) \<Rightarrow> 'a list \<Rightarrow> nat option" where
  "findIndex P [] = None"
| "findIndex P (x # xs) = (if P x then Some 0 else map_option Suc (findIndex P xs))"

definition querySelector :: "browser \<Rightarrow> string \<Rightarrow> element list \<Rightarrow> js_error + nat option" where
  "querySelector B sel els =
     (case matches B sel of None \<Rightarrow> Inl SyntaxError | Some P \<Rightarrow> Inr (findIndex P els))"

text \<open>
  Modelled from the spec: \<open>lib/elfor\<close> is not under src/. Its \<open>each\<close> is called
  with a selector, an iteratee and the select list "to hide/show the group": it
  applies the iteratee to every element of the select list that matches the selector
  (the elements that \<open>querySelectorAll\<close> gives, with its \<open>SyntaxError\<close>).
\<close>

definition elforEach :: "browser \<Rightarrow> string \<Rightarrow> (element \<Rightarrow> element) \<Rightarrow> element list \<Rightarrow> js_error + element list" where
  "elforEach B sel iteratee els =
     (case matches B sel of
        None \<Rightarrow> Inl SyntaxError
      | Some P \<Rightarrow> Inr (map (\<lambda>el. if P el then iteratee el else el) els))"

definition defaultSelector :: string where
  "defaultSelector = '':scope>option,:scope>optgroup:not([class])''"

text \<open>\<open>mode.selector || ':scope>option,:scope>optgroup:not([class])'\<close>\<close>

definition selectorOf :: "mode \<Rightarrow> string" where
  "selectorOf m = (case selector m of Some sel \<Rightarrow> sel | None \<Rightarrow> defaultSelector)"

text \<open>
  The branch "rebuild it" of \<open>setModeIconAndOptgroup\<close>: the progress cursor and its
  timer, then the mode's \<open>appendOptions\<close>, and for a mode with a selector the new sum
  in the optgroup's label.
\<close>

definition rebuild :: "browser \<Rightarrow> mode option \<Rightarrow> combo \<Rightarrow> outcome" where
  "rebuild B md s =
     (let s1 = s\<lparr>elCursor := Some ''progress'', timers := timers s @ [333]\<rparr> in
      case md of
        None \<Rightarrow> Thrown TypeError s1
      | Some m \<Rightarrow>
          (case selector m of
             Some sel \<Rightarrow>
               (case querySelector B sel (dropdown s1) of
                  Inl e \<Rightarrow> Thrown e s1
                | Inr optgroup \<Rightarrow>
                    (case appendOptions m of
                       None \<Rightarrow> Thrown TypeError s1
                     | Some f \<Rightarrow>
                         (let s2 = s1\<lparr>dropdown := dropdown s1 @ fst (f (dropdown s1) optgroup)\<rparr>;
                              sm = snd (f (dropdown s1) optgroup) in
                          case optgroup of
                            None \<Rightarrow> Thrown TypeError s2
                          | Some i \<Rightarrow>
                              Done (s2\<lparr>dropdown := (dropdown s2)
                                      [i := (dropdown s2 ! i)
                                         \<lparr>label := updateSum B sm (label (dropdown s2 ! i))\<rparr>]\<rparr>))))
           | None \<Rightarrow>
               (case appendOptions m of
                  None \<Rightarrow> Thrown TypeError s1
                | Some f \<Rightarrow> Done (s1\<lparr>dropdown := dropdown s1 @ fst (f (dropdown s1) None)\<rparr>))))"

text \<open>The last statement of \<open>setModeIconAndOptgroup\<close>: hide or show the group.\<close>

definition hideShow :: "browser \<Rightarrow> mode option \<Rightarrow> string option \<Rightarrow> combo \<Rightarrow> outcome" where
  "hideShow B md d s =
     (case md of
        None \<Rightarrow> Thrown TypeError s
      | Some m \<Rightarrow>
          (case elforEach B (selectorOf m) (\<lambda>el. el\<lparr>display := d\<rparr>) (dropdown s) of
             Inl e \<Rightarrow> Thrown e s
           | Inr els \<Rightarrow> Done (s\<lparr>dropdown := els\<rparr>)))"

text \<open>\<open>ctrl\<close> is the toggle, by its position in the control area.\<close>

definition setModeIconAndOptgroup :: "browser \<Rightarrow> nat \<Rightarrow> string \<Rightarrow> jsval \<Rightarrow> combo \<Rightarrow> outcome" where
  "setModeIconAndOptgroup B ctrl nm state s =
     (let md = find (\<lambda>m. name m = nm) (modes s);
          s1 = s\<lparr>controls := (controls s)
                 [ctrl := (controls s ! ctrl)
                    \<lparr>classList := classListToggle ''active'' (truthy state) (classList (controls s ! ctrl))\<rparr>]\<rparr>
      in if truthy state
         then (case rebuild B md s1 of
                 Thrown e s2 \<Rightarrow> Thrown e s2
               | Done s2 \<Rightarrow> hideShow B md None s2)
         else hideShow B md (Some ''none'') s1)"

text \<open>
  The target of a click in the control area: the area itself (a \<open>DIV\<close>) or the element
  at a position in it.
\<close>

datatype target = ControlArea | Control nat

definition onModeIconClick :: "browser \<Rightarrow> target \<Rightarrow> combo \<Rightarrow> outcome" where
  "onModeIconClick B t s =
     (case t of
        ControlArea \<Rightarrow> Done s
      | Control ctrl \<Rightarrow>
          if tagName (controls s ! ctrl) = ''SPAN''
          then (case find startsWithPrefix (classList (controls s ! ctrl)) of
                  None \<Rightarrow> Thrown TypeError s
                | Some modeClassName \<Rightarrow>
                    (let modeName = drop (length TOGGLE_MODE_PREFIX) modeClassName;
                         modeState = xor1 B (getProp (menuModes s) (objectPrototype s) modeName)
                     in setModeIconAndOptgroup B ctrl modeName modeState
                          (s\<lparr>menuModes := (menuModes s)(modeName \<mapsto> modeState)\<rparr>)))
          else Done s)"

subsection \<open>Showing and hiding the editor\<close>

text \<open>
  The first loop of \<open>showEditor\<close>: "build the proxy", from the source's own and
  inherited properties.
  \<^verbatim>\<open>if (modeName in menuModesSource) { menuModes[modeName] = menuModesSource[modeName]; }\<close>
\<close>

definition buildProxy :: "mode list \<Rightarrow> (string \<rightharpoonup> jsval) \<Rightarrow> (string \<rightharpoonup> jsval) \<Rightarrow> (string \<rightharpoonup> jsval)" where
  "buildProxy ms source inherited =
     foldl (\<lambda>proxy m.
              if hasProp source inherited (name m)
              then proxy(name m \<mapsto> getProp source inherited (name m))
              else proxy)
       Map.empty ms"

text \<open>
  The body of the second loop: a new toggle in the control area, a new optgroup for a
  mode with a label, the toggle looked up again by its class selector, and the initial
  state of the mode. The toggle's title and text and the optgroup's background colour
  are written and never read, and are left out. When the selector finds no toggle,
  \<open>ctrl\<close> is \<open>null\<close> and \<open>setModeIconAndOptgroup\<close> raises at \<open>ctrl.classList\<close>, before
  it has changed anything.
\<close>

definition initMode :: "browser \<Rightarrow> mode \<Rightarrow> combo \<Rightarrow> outcome" where
  "initMode B m s =
     (let toggle = \<lparr>tagName = ''SPAN'',
                     classList = classNameTokens (TOGGLE_MODE_PREFIX @ name m),
                     label = [], display = None\<rparr>;
          s1 = s\<lparr>controls := controls s @ [toggle]\<rparr>;
          s2 = (case modeLabel m of
                  None \<Rightarrow> s1
                | Some l \<Rightarrow>
                    s1\<lparr>dropdown := dropdown s1 @
                         [\<lparr>tagName = ''OPTGROUP'',
                           classList = classNameTokens (''submenu-'' @ name m),
                           label = l, display = None\<rparr>]\<rparr>);
          className = ''.'' @ TOGGLE_MODE_PREFIX @ name m
      in case querySelector B className (controls s2) of
           Inl e \<Rightarrow> Thrown e s2
         | Inr None \<Rightarrow> Thrown TypeError s2
         | Inr (Some ctrl) \<Rightarrow>
             setModeIconAndOptgroup B ctrl (name m)
               (getProp (menuModes s2) (objectPrototype s2) (name m)) s2)"

text \<open>\<open>forEach\<close>, which an exception leaves.\<close>

fun forEachMode :: "(mode \<Rightarrow> combo \<Rightarrow> outcome) \<Rightarrow> mode list \<Rightarrow> combo \<Rightarrow> outcome" where
  "forEachMode f [] s = Done s"
| "forEachMode f (m # ms) s =
     (case f m s of Done s' \<Rightarrow> forEachMode f ms s' | Thrown e s' \<Rightarrow> Thrown e s')"

text \<open>
  \<open>showEditor\<close> up to its last statement, and whole. The superclass's
  \<open>showEditor\<close> and \<open>hideEditor\<close> (\<open>Simple.prototype\<close>, not under src/) are
  parameters.
\<close>

definition showEditorOwn :: "browser \<Rightarrow> combo \<Rightarrow> outcome" where
  "showEditorOwn B s =
     (let s1 = s\<lparr>menuModes := buildProxy (modes s) (menuModesSource s) (menuModesSourceInherited s)\<rparr>;
          s2 = s1\<lparr>controlsListeners :=
                    addEventListener ''click'' (OnModeIconClickFn (bindSerial s1)) (controlsListeners s1),
                  bindSerial := Suc (bindSerial s1)\<rparr>
      in forEachMode (initMode B) (modes s2) s2)"

definition showEditor :: "browser \<Rightarrow> (combo \<Rightarrow> combo) \<Rightarrow> combo \<Rightarrow> outcome" where
  "showEditor B superShowEditor s =
     (case showEditorOwn B s of
        Done s' \<Rightarrow> Done (superShowEditor s')
      | Thrown e s' \<Rightarrow> Thrown e s')"

definition hideEditor :: "(combo \<Rightarrow> combo) \<Rightarrow> combo \<Rightarrow> combo" where
  "hideEditor superHideEditor s = superHideEditor s"

subsection \<open>Inserting the chosen item\<close>

text \<open>
  \<open>input.setRangeText(replacement, start, end, 'end')\<close> as the HTML standard has it:
  an \<open>IndexSizeError\<close> when start is beyond end, both cut to the length of the text,
  the range replaced, and the caret put after the replacement. An argument that is
  \<open>undefined\<close> is converted to 0.
\<close>

definition unsignedLong :: "nat option \<Rightarrow> nat" where
  "unsignedLong v = (case v of None \<Rightarrow> 0 | Some n \<Rightarrow> n)"

definition setRangeText :: "string \<Rightarrow> nat \<Rightarrow> nat \<Rightarrow> combo \<Rightarrow> outcome" where
  "setRangeText replacement start end' s =
     (if start > end' then Thrown IndexSizeError s
      else (let len = length (inputValue s);
                st = min start len;
                en = min end' len;
                newEnd = st + length replacement
            in Done (s\<lparr>inputValue := take st (inputValue s) @ replacement @ drop en (inputValue s),
                       inputSelectionStart := newEnd,
                       inputSelectionEnd := newEnd\<rparr>)))"

definition insertText :: "combo \<Rightarrow> outcome" where
  "insertText s =
     (case setRangeText (dropdownValue s) (unsignedLong (selectionStart s))
             (unsignedLong (selectionEnd s)) (s\<lparr>inputFocused := True\<rparr>) of
        Thrown e s' \<Rightarrow> Thrown e s'
      | Done s' \<Rightarrow> toggleDropDown s')"

subsection \<open>Key-up\<close>

text \<open>
  \<open>keyup\<close> works through the editor's and the grid's methods only, none of them under
  src/: they are parameters, over whatever state \<open>'g\<close> of editor and grid they read
  and write. Each call that changes something is noted in a log. An event that is absent
  is \<open>None\<close>.
\<close>

datatype call = SuperKeyup | SaveEditorValue | MoveEditor

record 'g collaborators =
  superKeyup :: "'g \<Rightarrow> 'g"
  getEditorPointY :: "'g \<Rightarrow> int"
  isFilterRow :: "'g \<Rightarrow> int \<Rightarrow> bool"
  resolveProperty :: "'g \<Rightarrow> string \<Rightarrow> jsval"
  saveEditorValue :: "'g \<Rightarrow> 'g"
  moveEditor :: "'g \<Rightarrow> 'g"

definition keyup :: "'g collaborators \<Rightarrow> 'e option \<Rightarrow> call list \<times> 'g \<Rightarrow> call list \<times> 'g" where
  "keyup c e lg =
     (case e of
        None \<Rightarrow> lg
      | Some ev \<Rightarrow>
          (let log1 = fst lg @ [SuperKeyup];
               g1 = superKeyup c (snd lg)
           in if isFilterRow c g1 (getEditorPointY c g1)
              then (if resolveProperty c g1 ''filteringMode'' = JStr ''immediate''
                    then (log1 @ [SaveEditorValue, MoveEditor], moveEditor c (saveEditorValue c g1))
                    else (log1, g1))
              else (log1, g1)))"

subsection \<open>The event loop\<close>

text \<open>
  The user's toggle request is a mouse-down on the dropper; the browser announces the end
  of the slide. Events are handled one at a time, each to completion; an exception ends
  the handler that raised it and the next event finds the state as it was left.
\<close>

datatype uiEvent = ToggleRequest | TransitionEnds

fun handle :: "uiEvent \<Rightarrow> combo \<Rightarrow> outcome" where
  "handle ToggleRequest s = toggleDropDown s"
| "handle TransitionEnds s = Done (transitionEnd s)"

fun run :: "uiEvent list \<Rightarrow> combo \<Rightarrow> combo" where
  "run [] s = s"
| "run (e # es) s = run es (stateOf (handle e s))"

subsection \<open>A closed editor, for the examples\<close>

text \<open>
  The data properties of \<open>Object.prototype\<close>, which a plain object inherits.
\<close>

definition plainObject :: "string \<rightharpoonup> jsval" where
  "plainObject =
     [''constructor'' \<mapsto> JObj ''Object'',
      ''hasOwnProperty'' \<mapsto> JObj ''hasOwnProperty'',
      ''isPrototypeOf'' \<mapsto> JObj ''isPrototypeOf'',
      ''propertyIsEnumerable'' \<mapsto> JObj ''propertyIsEnumerable'',
      ''toLocaleString'' \<mapsto> JObj ''toLocaleString'',
      ''toString'' \<mapsto> JObj ''toString'',
      ''valueOf'' \<mapsto> JObj ''valueOf'']"

definition closedEditor :: combo where
  "closedEditor =
     \<lparr>modes = [], menuModesSource = Map.empty, menuModesSourceInherited = plainObject,
      menuModes = Map.empty, objectPrototype = plainObject,
      controls = [], controlsListeners = [],
      dropdown = [], dropdownValue = '''', dropdownSize = 12,
      dropdownStyleSelectedIndex = None, dropdownStyleScrollTop = None,
      optionsVisibility = Hidden, optionsHeight = 0,
      elDisplay = Some ''none'', elCursor = None, timers = [],
      inputValue = ''abcdef'', inputSelectionStart = 2, inputSelectionEnd = 4,
      inputFocused = True, inputListeners = [],
      selectionStart = None, selectionEnd = None,
      slideUpBound = None, bindSerial = 0,
      transitionInProgress = False, transitionCallback = None\<rparr>"

subsection \<open>The display of a mode's option group\<close>

text \<open>
  The value \<open>setModeIconAndOptgroup\<close> gives its variable \<open>display\<close>: \<open>null\<close> for a
  state that is true, \<open>'none'\<close> otherwise; and the statement that every element of the
  select list that a matching predicate picks has a given display.
\<close>

definition displayOf :: "jsval \<Rightarrow> string option" where
  "displayOf state = (if truthy state then None else Some ''none'')"

definition groupDisplay :: "(element \<Rightarrow> bool) \<Rightarrow> string option \<Rightarrow> element list \<Rightarrow> bool" where
  "groupDisplay P d els = list_all (\<lambda>el. display el = d) (filter P els)"

subsection \<open>Reading a count back\<close>

text \<open>
  The number that a string of decimal digits stands for: what the digits of a count in
  a label have to give back.
\<close>

definition decimalValue :: "string \<Rightarrow> nat" where
  "decimalValue ds = foldl (\<lambda>a c. 10 * a + (of_char c - 48)) 0 ds"

subsection \<open>Examples\<close>

text \<open>
  Modelled from the spec: \<open>Simple.prototype.showEditor\<close> and \<open>hideEditor\<close> are not
  under src/. The spec's editor overlay opens over a cell and is closed again; here
  they show and hide the editor's element and touch nothing else of the combo box.
\<close>

definition simpleShowEditor :: "combo \<Rightarrow> combo" where
  "simpleShowEditor s = s\<lparr>elDisplay := None\<rparr>"

definition simpleHideEditor :: "combo \<Rightarrow> combo" where
  "simpleHideEditor s = s\<lparr>elDisplay := Some ''none''\<rparr>"

text \<open>
  A browser for the examples. Every option is a child of the select list and every
  class name is a plain word: the default selector matches the options and the
  optgroups without a class, \<open>optgroup.c\<close> the optgroups of class \<open>c\<close>, and \<open>.c\<close> the
  elements of class \<open>c\<close>; it knows no other selector. No example converts a string, an
  object or a number that is not a small integer.
\<close>

definition scopeMatches :: "string \<Rightarrow> (element \<Rightarrow> bool) option" where
  "scopeMatches sel =
     (if sel = defaultSelector
      then Some (\<lambda>el. tagName el = ''OPTION'' \<or> (tagName el = ''OPTGROUP'' \<and> classList el = []))
      else if take 9 sel = ''optgroup.''
      then Some (\<lambda>el. tagName el = ''OPTGROUP'' \<and> drop 9 sel \<in> set (classList el))
      else if take 1 sel = ''.''
      then Some (\<lambda>el. drop 1 sel \<in> set (classList el))
      else None)"

definition exampleBrowser :: browser where
  "exampleBrowser = \<lparr>matches = scopeMatches, numberOf = (\<lambda>v. NaN), textOf = (\<lambda>v. [])\<rparr>"

definition optionEl :: "string \<Rightarrow> element" where
  "optionEl l = \<lparr>tagName = ''OPTION'', classList = [], label = l, display = None\<rparr>"

text \<open>Two modes without a selector, the first switched on, the second off.\<close>

definition operatorsMode :: mode where
  "operatorsMode =
     \<lparr>name = ''operators'', modeLabel = None, selector = None,
      appendOptions = Some (\<lambda>els optgroup. ([optionEl ''=''], JNum (Finite 1)))\<rparr>"

definition columnsMode :: mode where
  "columnsMode =
     \<lparr>name = ''columns'', modeLabel = None, selector = None,
      appendOptions = Some (\<lambda>els optgroup. ([optionEl ''price''], JNum (Finite 1)))\<rparr>"

definition twoPlainModes :: combo where
  "twoPlainModes =
     closedEditor\<lparr>modes := [operatorsMode, columnsMode],
                  menuModesSource := [''operators'' \<mapsto> JNum (Finite 1),
                                      ''columns'' \<mapsto> JNum (Finite 0)]\<rparr>"

definition shownTwoPlain :: combo where
  "shownTwoPlain = stateOf (showEditor exampleBrowser simpleShowEditor twoPlainModes)"

text \<open>
  A mode with a label and a selector, switched on. Each time it is enabled it appends
  three options and returns a count that grows with the select list: two more than the
  number of elements the list had.
\<close>

definition valuesMode :: mode where
  "valuesMode =
     \<lparr>name = ''values'', modeLabel = Some ''Values'', selector = Some ''optgroup.submenu-values'',
      appendOptions =
        Some (\<lambda>els optgroup. ([optionEl ''a'', optionEl ''b'', optionEl ''c''],
                               JNum (Finite (of_nat (length els + 2)))))\<rparr>"

definition oneGroupMode :: combo where
  "oneGroupMode =
     closedEditor\<lparr>modes := [valuesMode], menuModesSource := [''values'' \<mapsto> JNum (Finite 1)]\<rparr>"

definition shownOneGroup :: combo where
  "shownOneGroup = stateOf (showEditor exampleBrowser simpleShowEditor oneGroupMode)"

text \<open>A mode like it whose \<open>appendOptions\<close> appends an option and returns nothing.\<close>

definition uncountedMode :: mode where
  "uncountedMode =
     \<lparr>name = ''values'', modeLabel = Some ''Values'', selector = Some ''optgroup.submenu-values'',
      appendOptions = Some (\<lambda>els optgroup. ([optionEl ''a''], JUndefined))\<rparr>"

definition uncountedEditor :: combo where
  "uncountedEditor =
     closedEditor\<lparr>modes := [uncountedMode], menuModesSource := [''values'' \<mapsto> JNum (Finite 1)]\<rparr>"

definition shownUncounted :: combo where
  "shownUncounted = stateOf (showEditor exampleBrowser simpleShowEditor uncountedEditor)"

text \<open>The same mode, its flag in the source the number \<open>2^32\<close>.\<close>

definition bigFlagMode :: combo where
  "bigFlagMode =
     closedEditor\<lparr>modes := [valuesMode],
                  menuModesSource := [''values'' \<mapsto> JNum (Finite 4294967296)]\<rparr>"

definition shownBigFlag :: combo where
  "shownBigFlag = stateOf (showEditor exampleBrowser simpleShowEditor bigFlagMode)"

text \<open>
  A mode named \<open>constructor\<close>, and a source that is a plain object with no property of
  its own.
\<close>

definition constructorMode :: mode where
  "constructorMode =
     \<lparr>name = ''constructor'', modeLabel = None, selector = None,
      appendOptions = Some (\<lambda>els optgroup. ([optionEl ''new''], JNum (Finite 1)))\<rparr>"

definition inheritedName :: combo where
  "inheritedName = closedEditor\<lparr>modes := [constructorMode]\<rparr>"


text \<open>The drop-down open and at rest, with an item chosen in the select list.\<close>

definition openWithChoice :: combo where
  "openWithChoice = (transitionEnd (slideDown closedEditor))\<lparr>dropdownValue := ''XY''\<rparr>"

subsection \<open>Outcomes that differ in the transition flag only\<close>


section \<open>Properties of the drop-down toggle\<close>

lemma transit_slideDown: "transit (slideDown s)"
  by (simp add: transit_def slideDown_def transitWith_def)

lemma transit_slideUp: "transit (slideUp s)"
  by (simp add: transit_def slideUp_def transitWith_def)

lemma not_transit_transitionEnd: "\<not> transit (transitionEnd s)"
  by (simp add: transit_def transitionEnd_def)

lemma dom_stateToActionMap: "dom stateToActionMap = {Hidden, Visible}"
proof
  show "dom stateToActionMap \<subseteq> {Hidden, Visible}"
  proof
    fix v
    assume "v \<in> dom stateToActionMap"
    then show "v \<in> {Hidden, Visible}"
      by (cases v) auto
  qed
  show "{Hidden, Visible} \<subseteq> dom stateToActionMap"
    by auto
qed

text \<open>
  C1, as the code has it. A toggle requested while a slide transition is in flight is
  not deferred: \<open>toggleDropDown\<close> returns with the state untouched, nothing is kept
  for later, and what follows runs as if the request had never been made. The request
  is applied zero times; of two overlapping requests the first wins.
\<close>

theorem toggle_in_flight_is_dropped:
  "transit s \<Longrightarrow> toggleDropDown s = Done s \<and> run (ToggleRequest # es) s = run es s"
  by (simp add: toggleDropDown_def)

theorem toggle_in_flight_is_dropped_witness:
  "transit (slideDown closedEditor) \<and>
   toggleDropDown (slideDown closedEditor) = Done (slideDown closedEditor) \<and>
   run [ToggleRequest, TransitionEnds] (slideDown closedEditor) =
     run [TransitionEnds] (slideDown closedEditor)"
proof -
  have h: "transit (slideDown closedEditor)"
    by (rule transit_slideDown)
  show ?thesis
    using h toggle_in_flight_is_dropped [OF h, of "[TransitionEnds]"] by simp
qed

text \<open>
  C1 as stated fails. From the closed editor, a request opens the drop-down and a
  second request arrives before the slide has ended. Were the second request deferred
  and applied once after the transition, the run would end like request, end of
  transition, request: with the pane sliding up, its height 0. It ends with the pane
  open, its height 199, as if the second request had not been made.
\<close>

theorem deferred_toggle_counterexample:
  "optionsHeight (run [ToggleRequest, ToggleRequest, TransitionEnds] closedEditor) = 199 \<and>
   optionsHeight (run [ToggleRequest, TransitionEnds, ToggleRequest] closedEditor) = 0 \<and>
   run [ToggleRequest, ToggleRequest, TransitionEnds] closedEditor \<noteq>
     run [ToggleRequest, TransitionEnds, ToggleRequest] closedEditor \<and>
   run [ToggleRequest, ToggleRequest, TransitionEnds] closedEditor =
     run [ToggleRequest, TransitionEnds] closedEditor"
  by (simp add: toggleDropDown_def transit_def computedVisibility_def closedEditor_def
      slideDown_def slideUp_def transitWith_def transitionEnd_def addEventListener_def
      removeEventListener_def)

text \<open>
  C3. With no transition in flight, a toggle request on a hidden drop-down performs
  \<open>slideDown\<close> and one on a visible drop-down performs \<open>slideUp\<close>; the map from
  visibility to action has these two entries and no other (under the third computed
  visibility, \<open>collapse\<close>, the lookup is \<open>undefined\<close> and calling it raises a
  \<open>TypeError\<close>, without any transition). \<open>slideDown\<close> leaves the drop-down visible,
  and \<open>slideUp\<close> leaves it hidden once its transition has ended.
\<close>

theorem toggle_state_machine:
  "\<not> transit s \<Longrightarrow>
     (computedVisibility s = Hidden \<longrightarrow> toggleDropDown s = Done (slideDown s)) \<and>
     (computedVisibility s = Visible \<longrightarrow> toggleDropDown s = Done (slideUp s)) \<and>
     (computedVisibility s = Collapse \<longrightarrow> toggleDropDown s = Thrown TypeError s) \<and>
     dom stateToActionMap = {Hidden, Visible} \<and>
     computedVisibility (slideDown s) = Visible \<and>
     computedVisibility (transitionEnd (slideUp s)) = Hidden"
proof -
  assume idle: "\<not> transit s"
  have a: "computedVisibility (slideDown s) = Visible"
    by (simp add: computedVisibility_def slideDown_def transitWith_def)
  have b: "computedVisibility (transitionEnd (slideUp s)) = Hidden"
    by (simp add: computedVisibility_def slideUp_def transitWith_def transitionEnd_def)
  from idle a b dom_stateToActionMap show ?thesis
    by (simp add: toggleDropDown_def)
qed

theorem toggle_state_machine_witness:
  "\<not> transit closedEditor \<and> computedVisibility closedEditor = Hidden \<and>
   toggleDropDown closedEditor = Done (slideDown closedEditor) \<and>
   \<not> transit (transitionEnd (slideDown closedEditor)) \<and>
   computedVisibility (transitionEnd (slideDown closedEditor)) = Visible \<and>
   toggleDropDown (transitionEnd (slideDown closedEditor)) =
     Done (slideUp (transitionEnd (slideDown closedEditor))) \<and>
   computedVisibility (transitionEnd (slideUp (transitionEnd (slideDown closedEditor)))) = Hidden"
proof -
  have i0: "\<not> transit closedEditor"
    by (simp add: transit_def closedEditor_def)
  have v0: "computedVisibility closedEditor = Hidden"
    by (simp add: computedVisibility_def closedEditor_def)
  have i1: "\<not> transit (transitionEnd (slideDown closedEditor))"
    by (rule not_transit_transitionEnd)
  have v1: "computedVisibility (transitionEnd (slideDown closedEditor)) = Visible"
    by (simp add: computedVisibility_def transitionEnd_def slideDown_def transitWith_def)
  show ?thesis
    using i0 v0 i1 v1 toggle_state_machine [OF i0]
      toggle_state_machine [OF i1] by simp
qed

section \<open>Properties of inserting, hiding and key-up\<close>

text \<open>
  C10. When an item of the drop-down is chosen, \<open>insertText\<close> puts the select list's
  value into the text over the range \<open>this.selectionStart\<close> to \<open>this.selectionEnd\<close>,
  which \<open>slideDown\<close> saved from the input when the drop-down slid open (whatever the
  input's own selection has become since), puts the caret after the inserted text, and
  then calls \<open>toggleDropDown\<close>, which closes a drop-down that is visible and at rest.
\<close>

theorem insertText_over_saved_selection:
  "selectionStart s = Some a \<Longrightarrow> selectionEnd s = Some b \<Longrightarrow> a \<le> b \<Longrightarrow>
     insertText s =
       toggleDropDown
         (s\<lparr>inputFocused := True,
            inputValue := take a (inputValue s) @ dropdownValue s @ drop b (inputValue s),
            inputSelectionStart := min a (length (inputValue s)) + length (dropdownValue s),
            inputSelectionEnd := min a (length (inputValue s)) + length (dropdownValue s)\<rparr>) \<and>
     (\<not> transit s \<and> computedVisibility s = Visible \<longrightarrow>
        insertText s =
          Done (slideUp
            (s\<lparr>inputFocused := True,
               inputValue := take a (inputValue s) @ dropdownValue s @ drop b (inputValue s),
               inputSelectionStart := min a (length (inputValue s)) + length (dropdownValue s),
               inputSelectionEnd := min a (length (inputValue s)) + length (dropdownValue s)\<rparr>))) \<and>
     selectionStart (slideDown s0) = Some (inputSelectionStart s0) \<and>
     selectionEnd (slideDown s0) = Some (inputSelectionEnd s0)"
proof -
  assume a: "selectionStart s = Some a" and b: "selectionEnd s = Some b" and le: "a \<le> b"
  let ?s' = "s\<lparr>inputFocused := True,
            inputValue := take a (inputValue s) @ dropdownValue s @ drop b (inputValue s),
            inputSelectionStart := min a (length (inputValue s)) + length (dropdownValue s),
            inputSelectionEnd := min a (length (inputValue s)) + length (dropdownValue s)\<rparr>"
  from a b le have ins: "insertText s = toggleDropDown ?s'"
    by (simp add: insertText_def setRangeText_def unsignedLong_def Let_def min_def)
  have close: "\<not> transit s \<and> computedVisibility s = Visible \<longrightarrow>
      toggleDropDown ?s' = Done (slideUp ?s')"
    by (simp add: toggleDropDown_def transit_def computedVisibility_def)
  have saved: "selectionStart (slideDown s0) = Some (inputSelectionStart s0) \<and>
      selectionEnd (slideDown s0) = Some (inputSelectionEnd s0)"
    by (simp add: slideDown_def transitWith_def)
  from ins close saved show ?thesis
    by simp
qed

theorem insertText_over_saved_selection_witness:
  "selectionStart openWithChoice = Some 2 \<and> selectionEnd openWithChoice = Some 4 \<and>
   inputValue openWithChoice = ''abcdef'' \<and> dropdownValue openWithChoice = ''XY'' \<and>
   \<not> transit openWithChoice \<and> computedVisibility openWithChoice = Visible \<and>
   insertText openWithChoice =
     Done (slideUp (openWithChoice\<lparr>inputFocused := True, inputValue := ''abXYef'',
                      inputSelectionStart := 4, inputSelectionEnd := 4\<rparr>))"
proof -
  have a: "selectionStart openWithChoice = Some 2" "selectionEnd openWithChoice = Some 4"
    by (simp_all add: openWithChoice_def transitionEnd_def slideDown_def transitWith_def
        closedEditor_def)
  have le: "(2::nat) \<le> 4" by simp
  have v: "inputValue openWithChoice = ''abcdef''" "dropdownValue openWithChoice = ''XY''"
    "\<not> transit openWithChoice" "computedVisibility openWithChoice = Visible"
    by (simp_all add: openWithChoice_def transitionEnd_def slideDown_def transitWith_def
        closedEditor_def transit_def computedVisibility_def)
  have e: "take 2 ''abcdef'' @ ''XY'' @ drop 4 ''abcdef'' = ''abXYef''"
    by simp
  have n: "min 2 (length ''abcdef'') + length ''XY'' = (4::nat)"
    by simp
  note t = insertText_over_saved_selection [OF a le, of closedEditor, unfolded v(1,2) e n]
  from t v(3,4) have "insertText openWithChoice =
     Done (slideUp (openWithChoice\<lparr>inputFocused := True, inputValue := ''abXYef'',
                      inputSelectionStart := 4, inputSelectionEnd := 4\<rparr>))"
    by blast
  with a v show ?thesis by simp
qed

text \<open>
  C7, as the code has it. \<open>slideUp\<close>, which closes the drop-down, takes away the
  mouse-down listener that \<open>slideDown\<close> registered on the text input. \<open>hideEditor\<close>
  does nothing but call the superclass's \<open>hideEditor\<close>: it releases no listener of its
  own, and after it the listener \<open>slideDown\<close> registered is still on the input, for
  every superclass method that leaves the input's listeners as they are.
\<close>

theorem hideEditor_releases_nothing:
  "(\<And>t. inputListeners (superHideEditor t) = inputListeners t) \<Longrightarrow>
   hideEditor superHideEditor s = superHideEditor s \<and>
   (''mousedown'', SlideUpFn (bindSerial s)) \<in>
     set (inputListeners (hideEditor superHideEditor (slideDown s))) \<and>
   (''mousedown'', SlideUpFn (bindSerial s)) \<notin> set (inputListeners (slideUp (slideDown s)))"
  by (simp add: hideEditor_def slideDown_def slideUp_def transitWith_def addEventListener_def
      removeEventListener_def)

theorem hideEditor_releases_nothing_witness:
  "(''mousedown'', SlideUpFn 0) \<in>
     set (inputListeners (hideEditor simpleHideEditor (slideDown closedEditor))) \<and>
   (''mousedown'', SlideUpFn 0) \<notin> set (inputListeners (slideUp (slideDown closedEditor)))"
proof -
  have frame: "\<And>t. inputListeners (simpleHideEditor t) = inputListeners t"
    by (simp add: simpleHideEditor_def)
  have b: "bindSerial closedEditor = 0"
    by (simp add: closedEditor_def)
  from hideEditor_releases_nothing [of simpleHideEditor closedEditor, OF frame] b
  show ?thesis by simp
qed

text \<open>
  C7 as stated fails. The closed editor has no listener on its text input. The
  drop-down is opened and the editor is then hidden: the mouse-down listener that
  \<open>slideDown\<close> registered is still on the input.
\<close>

theorem hideEditor_leak_counterexample:
  "inputListeners closedEditor = [] \<and>
   inputListeners (hideEditor simpleHideEditor (slideDown closedEditor)) =
     [(''mousedown'', SlideUpFn 0)]"
  by (simp add: hideEditor_def simpleHideEditor_def slideDown_def transitWith_def
      addEventListener_def closedEditor_def)

text \<open>
  C6. On a key-up event the superclass's handler runs first; then the editor's value
  is saved and the editor moved exactly when the grid says the editor's row is a filter
  row and its property \<open>filteringMode\<close> resolves to the string \<open>immediate\<close>; otherwise
  nothing is done beyond the superclass's handling.
\<close>

theorem keyup_commits_on_immediate_filter_row:
  "keyup c (Some ev) (lg, g) =
     (if isFilterRow c (superKeyup c g) (getEditorPointY c (superKeyup c g)) \<and>
         resolveProperty c (superKeyup c g) ''filteringMode'' = JStr ''immediate''
      then (lg @ [SuperKeyup, SaveEditorValue, MoveEditor],
            moveEditor c (saveEditorValue c (superKeyup c g)))
      else (lg @ [SuperKeyup], superKeyup c g)) \<and>
   (SaveEditorValue \<in> set (fst (keyup c (Some ev) ([], g))) \<longleftrightarrow>
      isFilterRow c (superKeyup c g) (getEditorPointY c (superKeyup c g)) \<and>
      resolveProperty c (superKeyup c g) ''filteringMode'' = JStr ''immediate'') \<and>
   (MoveEditor \<in> set (fst (keyup c (Some ev) ([], g))) \<longleftrightarrow>
      isFilterRow c (superKeyup c g) (getEditorPointY c (superKeyup c g)) \<and>
      resolveProperty c (superKeyup c g) ''filteringMode'' = JStr ''immediate'')"
  by (simp add: keyup_def Let_def)


section \<open>Properties of the modes\<close>

subsection \<open>Flags and their conversions\<close>

lemma word_of_int_sint32: "word_of_int (sint (w :: 32 word)) = w"
  by simp

lemma int32Of_int32Value: "toInt32 B (int32Value w) = w"
proof -
  have "(if rat_of_int (sint w) < 0 then \<lceil>rat_of_int (sint w)\<rceil> else \<lfloor>rat_of_int (sint w)\<rfloor>) = sint w"
    by (simp del: of_int_sint)
  then show ?thesis
    by (simp add: toInt32_def int32Value_def word_of_int_sint32 del: of_int_sint)
qed

lemma truthy_int32Value: "truthy (int32Value w) = (w \<noteq> 0)"
  by (simp add: int32Value_def signed_eq_0_iff)

lemma xor1_twice: "xor1 B (xor1 B v) = int32Value (toInt32 B v)"
  by (simp add: xor1_def int32Of_int32Value xor.assoc)

lemma big_flag: "toInt32 B (JNum (Finite 4294967296)) = 0"
  "xor1 B (JNum (Finite 4294967296)) = JNum (Finite 1)"
  "xor1 B (JNum (Finite 1)) = JNum (Finite 0)"
  "xor1 B (JNum (Finite 0)) = JNum (Finite 1)"
  "xor1 B JUndefined = JNum (Finite 1)"
  by (simp_all add: xor1_def toInt32_def int32Value_def)

subsection \<open>What the mode functions leave alone\<close>

lemma rebuild_keeps:
  "menuModes (stateOf (rebuild B md s)) = menuModes s \<and>
   menuModesSource (stateOf (rebuild B md s)) = menuModesSource s \<and>
   menuModesSourceInherited (stateOf (rebuild B md s)) = menuModesSourceInherited s \<and>
   objectPrototype (stateOf (rebuild B md s)) = objectPrototype s \<and>
   modes (stateOf (rebuild B md s)) = modes s \<and>
   controls (stateOf (rebuild B md s)) = controls s"
  by (simp add: rebuild_def Let_def split: option.splits sum.splits)

lemma hideShow_keeps:
  "menuModes (stateOf (hideShow B md d s)) = menuModes s \<and>
   menuModesSource (stateOf (hideShow B md d s)) = menuModesSource s \<and>
   menuModesSourceInherited (stateOf (hideShow B md d s)) = menuModesSourceInherited s \<and>
   objectPrototype (stateOf (hideShow B md d s)) = objectPrototype s \<and>
   modes (stateOf (hideShow B md d s)) = modes s \<and>
   controls (stateOf (hideShow B md d s)) = controls s"
  by (simp add: hideShow_def split: option.splits sum.splits)

lemma setModeIconAndOptgroup_keeps:
  "menuModes (stateOf (setModeIconAndOptgroup B ctrl nm state s)) = menuModes s \<and>
   menuModesSource (stateOf (setModeIconAndOptgroup B ctrl nm state s)) = menuModesSource s \<and>
   menuModesSourceInherited (stateOf (setModeIconAndOptgroup B ctrl nm state s)) =
     menuModesSourceInherited s \<and>
   objectPrototype (stateOf (setModeIconAndOptgroup B ctrl nm state s)) = objectPrototype s \<and>
   modes (stateOf (setModeIconAndOptgroup B ctrl nm state s)) = modes s \<and>
   controls (stateOf (setModeIconAndOptgroup B ctrl nm state s)) =
     (controls s)[ctrl := (controls s ! ctrl)
        \<lparr>classList := classListToggle ''active'' (truthy state) (classList (controls s ! ctrl))\<rparr>]"
proof (cases "truthy state")
  case False
  then show ?thesis
    by (simp add: setModeIconAndOptgroup_def Let_def hideShow_keeps)
next
  case True
  let ?s1 = "s\<lparr>controls := (controls s)[ctrl := (controls s ! ctrl)
         \<lparr>classList := classListToggle ''active'' (truthy state) (classList (controls s ! ctrl))\<rparr>]\<rparr>"
  let ?md = "find (\<lambda>m. name m = nm) (modes s)"
  show ?thesis
  proof (cases "rebuild B ?md ?s1")
    case (Done s2)
    with True rebuild_keeps [of B ?md ?s1] show ?thesis
      by (simp add: setModeIconAndOptgroup_def Let_def hideShow_keeps)
  next
    case (Thrown e s2)
    with True rebuild_keeps [of B ?md ?s1] show ?thesis
      by (simp add: setModeIconAndOptgroup_def Let_def)
  qed
qed

lemma initMode_keeps:
  "menuModes (stateOf (initMode B m s)) = menuModes s \<and>
   menuModesSource (stateOf (initMode B m s)) = menuModesSource s \<and>
   menuModesSourceInherited (stateOf (initMode B m s)) = menuModesSourceInherited s \<and>
   modes (stateOf (initMode B m s)) = modes s"
  by (simp add: initMode_def Let_def setModeIconAndOptgroup_keeps split: option.splits sum.splits)

lemma forEachMode_keeps:
  "menuModes (stateOf (forEachMode (initMode B) ms s)) = menuModes s \<and>
   menuModesSource (stateOf (forEachMode (initMode B) ms s)) = menuModesSource s \<and>
   menuModesSourceInherited (stateOf (forEachMode (initMode B) ms s)) = menuModesSourceInherited s \<and>
   modes (stateOf (forEachMode (initMode B) ms s)) = modes s"
proof (induction ms arbitrary: s)
  case Nil
  then show ?case by simp
next
  case (Cons m ms)
  show ?case
  proof (cases "initMode B m s")
    case (Done s')
    with initMode_keeps [of B m s] Cons.IH [of s'] show ?thesis by simp
  next
    case (Thrown e s')
    with initMode_keeps [of B m s] show ?thesis by simp
  qed
qed

subsection \<open>The proxy of the mode flags\<close>

lemma foldl_proxy:
  "foldl (\<lambda>proxy m. if name m \<in> dom src
                      then proxy(name m \<mapsto> (case src (name m) of None \<Rightarrow> JUndefined | Some v \<Rightarrow> v))
                      else proxy) acc ms =
     acc ++ (src |` (name ` set ms))"
proof (induction ms arbitrary: acc)
  case Nil
  then show ?case by simp
next
  case (Cons m ms)
  show ?case
    by (simp only: foldl_Cons Cons.IH)
      (auto simp: map_add_def restrict_map_def fun_eq_iff domIff split: option.splits)
qed

lemma buildProxy_restrict:
  "buildProxy ms source inherited = (inherited ++ source) |` (name ` set ms)"
  unfolding buildProxy_def hasProp_def getProp_def
  using foldl_proxy [of "inherited ++ source" Map.empty ms]
  by (simp only: empty_map_add)

lemma restrict_own:
  "\<forall>m \<in> set ms. inherited (name m) = None \<Longrightarrow>
   (inherited ++ source) |` (name ` set ms) = source |` (name ` set ms)"
  by (auto simp: fun_eq_iff restrict_map_def map_add_def split: option.splits)

lemma showEditorOwn_proxy:
  "menuModes (stateOf (showEditorOwn B s)) =
     (menuModesSourceInherited s ++ menuModesSource s) |` (name ` set (modes s)) \<and>
   menuModesSource (stateOf (showEditorOwn B s)) = menuModesSource s \<and>
   menuModesSourceInherited (stateOf (showEditorOwn B s)) = menuModesSourceInherited s"
  by (simp add: showEditorOwn_def Let_def forEachMode_keeps buildProxy_restrict)

text \<open>
  C8, as the code has it. \<open>showEditor\<close> makes \<open>this.menuModes\<close> from the names of
  the modes in \<open>this.modes\<close> and the properties of \<open>this.menuModesSource\<close> that
  \<open>in\<close> finds, its own and those it inherits: a mode's name that is such a property
  becomes a key of \<open>menuModes\<close> with the property's value, and \<open>menuModes\<close> has no
  other key; the source is not changed. Where no mode is named like a property the source
  inherits, \<open>menuModes\<close> is the restriction of the source to the names of the modes. No
  mode is named \<open>__proto__\<close>, the one name whose assignment an accessor takes. This
  holds of the state handed to the superclass's \<open>showEditor\<close> when the method gets
  there, and of the state at the throw when setting up a mode raises.
\<close>

theorem showEditor_builds_proxy:
  "''__proto__'' \<notin> name ` set (modes s) \<Longrightarrow>
   \<exists>s'. (showEditor B superShowEditor s = Done (superShowEditor s') \<or>
          (\<exists>e. showEditor B superShowEditor s = Thrown e s')) \<and>
         menuModes s' =
           (menuModesSourceInherited s ++ menuModesSource s) |` (name ` set (modes s)) \<and>
         ((\<forall>m \<in> set (modes s). menuModesSourceInherited s (name m) = None) \<longrightarrow>
            menuModes s' = menuModesSource s |` (name ` set (modes s))) \<and>
         menuModesSource s' = menuModesSource s \<and>
         menuModesSourceInherited s' = menuModesSourceInherited s"
proof (cases "showEditorOwn B s")
  case (Done s')
  with showEditorOwn_proxy [of B s] show ?thesis
    by (auto simp: showEditor_def restrict_own)
next
  case (Thrown e s')
  with showEditorOwn_proxy [of B s] show ?thesis
    by (auto simp: showEditor_def restrict_own)
qed

lemma plainObject_names:
  "plainObject ''operators'' = None" "plainObject ''columns'' = None"
  "plainObject ''values'' = None" "plainObject ''ghost'' = None"
  "plainObject ''constructor'' = Some (JObj ''Object'')"
  by (simp_all add: plainObject_def)

theorem showEditor_builds_proxy_witness:
  "''__proto__'' \<notin> name ` set (modes twoPlainModes) \<and>
   menuModes shownTwoPlain ''operators'' = Some (JNum (Finite 1)) \<and>
   menuModes shownTwoPlain ''columns'' = Some (JNum (Finite 0)) \<and>
   menuModes shownTwoPlain ''constructor'' = None"
proof -
  have h: "''__proto__'' \<notin> name ` set (modes twoPlainModes)"
    by (simp add: twoPlainModes_def operatorsMode_def columnsMode_def)
  from showEditor_builds_proxy [OF h, of exampleBrowser simpleShowEditor]
  obtain s' where o: "showEditor exampleBrowser simpleShowEditor twoPlainModes = Done (simpleShowEditor s') \<or>
          (\<exists>e. showEditor exampleBrowser simpleShowEditor twoPlainModes = Thrown e s')"
    and m: "menuModes s' =
      (menuModesSourceInherited twoPlainModes ++ menuModesSource twoPlainModes) |`
        (name ` set (modes twoPlainModes))"
    by blast
  from o have "menuModes shownTwoPlain = menuModes s'"
    by (auto simp: shownTwoPlain_def simpleShowEditor_def)
  with m h show ?thesis
    by (simp add: twoPlainModes_def closedEditor_def operatorsMode_def columnsMode_def
        restrict_map_def map_add_def plainObject_names)
qed

text \<open>
  C8 as stated fails. The source is a plain object with no property of its own, and
  the one mode is named \<open>constructor\<close>. The source has no key, yet after
  \<open>showEditor\<close> \<open>menuModes\<close> has the key \<open>constructor\<close>, holding the function
  \<open>Object\<close> that the source inherits.
\<close>

theorem inherited_name_counterexample:
  "dom (menuModesSource inheritedName) = {} \<and>
   name ` set (modes inheritedName) = {''constructor''} \<and>
   menuModes (stateOf (showEditor exampleBrowser simpleShowEditor inheritedName)) ''constructor'' =
     Some (JObj ''Object'')"
proof -
  have "menuModes (stateOf (showEditorOwn exampleBrowser inheritedName)) ''constructor'' =
      Some (JObj ''Object'')"
    by (simp add: showEditorOwn_proxy inheritedName_def closedEditor_def constructorMode_def
        restrict_map_def map_add_def plainObject_names)
  then show ?thesis
    by (cases "showEditorOwn exampleBrowser inheritedName")
      (simp_all add: showEditor_def simpleShowEditor_def inheritedName_def closedEditor_def
        constructorMode_def)
qed

subsection \<open>The count in an optgroup's label\<close>

lemma digitChar_isDigit: "d < 10 \<Longrightarrow> isDigit (digitChar d)"
  unfolding isDigit_def digitChar_def by (rule nth_mem) simp

lemma digits_isDigit: "c \<in> set (digits n) \<Longrightarrow> isDigit c"
proof (induction n rule: digits.induct)
  case (1 n)
  show ?case
  proof (cases "n < 10")
    case True
    with "1.prems" have "c = digitChar n"
      by (subst (asm) digits.simps) simp
    with True show ?thesis by (simp add: digitChar_isDigit)
  next
    case False
    with "1.prems" have "c \<in> set (digits (n div 10)) \<or> c = digitChar (n mod 10)"
      by (subst (asm) digits.simps) auto
    then show ?thesis
    proof
      assume "c \<in> set (digits (n div 10))"
      with False "1.IH" show ?thesis by simp
    next
      assume "c = digitChar (n mod 10)"
      then show ?thesis by (simp add: digitChar_isDigit)
    qed
  qed
qed

lemma digits_not_Nil: "digits n \<noteq> []"
  by (subst digits.simps) simp

lemma digit_value: "d < 10 \<Longrightarrow> of_char (digitChar d) - 48 = d"
proof -
  assume "d < 10"
  then have "d \<in> {0, 1, 2, 3, 4, 5, 6, 7, 8, 9}" by auto
  then show ?thesis
    by (auto simp: digitChar_def)
qed

lemma digit_zero: "d < 10 \<Longrightarrow> digitChar d = CHR ''0'' \<Longrightarrow> d = 0"
proof -
  assume "d < 10"
  then have "d \<in> {0, 1, 2, 3, 4, 5, 6, 7, 8, 9}" by auto
  moreover assume "digitChar d = CHR ''0''"
  ultimately show ?thesis
    by (auto simp: digitChar_def)
qed

lemma decimalValue_snoc: "decimalValue (ds @ [c]) = 10 * decimalValue ds + (of_char c - 48)"
  by (simp add: decimalValue_def)

lemma decimalValue_digits: "decimalValue (digits n) = n"
proof (induction n rule: digits.induct)
  case (1 n)
  show ?case
  proof (cases "n < 10")
    case True
    then show ?thesis
      by (subst digits.simps) (simp add: decimalValue_def digit_value)
  next
    case False
    with "1.IH" have "decimalValue (digits (n div 10)) = n div 10" by simp
    with False show ?thesis
      by (subst digits.simps) (simp add: decimalValue_snoc digit_value)
  qed
qed

lemma hd_digits: "n \<noteq> 0 \<Longrightarrow> hd (digits n) \<noteq> CHR ''0''"
proof (induction n rule: digits.induct)
  case (1 n)
  show ?case
  proof (cases "n < 10")
    case True
    with "1.prems" show ?thesis
      by (subst digits.simps) (auto dest: digit_zero)
  next
    case False
    then have "n div 10 \<noteq> 0" by simp
    with False "1.IH" have "hd (digits (n div 10)) \<noteq> CHR ''0''" by simp
    with False show ?thesis
      by (subst digits.simps) (simp add: digits_not_Nil)
  qed
qed

lemma isDigit_mem: "isDigit c \<longleftrightarrow> c \<in> set ''0123456789''"
  unfolding isDigit_def ..

lemma removeOldSum_suffix:
  assumes "ds \<noteq> []" and "set ds \<subseteq> set ''0123456789''"
  shows "removeOldSum (b @ '' ('' @ ds @ '')'') = b"
proof -
  have nd: "\<not> isDigit CHR ''(''" by (simp add: isDigit_def)
  from assms(2) have dg: "\<And>c. c \<in> set ds \<Longrightarrow> isDigit c"
    unfolding isDigit_mem by blast
  have r: "rev (b @ '' ('' @ ds @ '')'') = CHR '')'' # (rev ds @ CHR ''('' # CHR '' '' # rev b)"
    by simp
  have "takeWhile isDigit (rev ds @ CHR ''('' # CHR '' '' # rev b) =
          rev ds @ takeWhile isDigit (CHR ''('' # CHR '' '' # rev b)"
    by (rule takeWhile_append2) (simp add: dg)
  with nd have tw: "takeWhile isDigit (rev ds @ CHR ''('' # CHR '' '' # rev b) = rev ds"
    by simp
  have "dropWhile isDigit (rev ds @ CHR ''('' # CHR '' '' # rev b) =
          dropWhile isDigit (CHR ''('' # CHR '' '' # rev b)"
    by (rule dropWhile_append2) (simp add: dg)
  with nd have dw: "dropWhile isDigit (rev ds @ CHR ''('' # CHR '' '' # rev b) = CHR ''('' # CHR '' '' # rev b"
    by simp
  show ?thesis
    unfolding removeOldSum_def r using assms(1) by (simp add: tw dw)
qed

lemma removeOldSum_changes:
  assumes ne: "removeOldSum l \<noteq> l"
  shows "\<exists>b ds. ds \<noteq> [] \<and> set ds \<subseteq> set ''0123456789'' \<and> l = b @ '' ('' @ ds @ '')''"
proof -
  from ne obtain c r where rl: "rev l = c # r"
    by (cases "rev l") (simp_all add: removeOldSum_def)
  let ?tw = "takeWhile isDigit r"
  let ?dw = "dropWhile isDigit r"
  from ne rl have cond: "c = CHR '')'' \<and> ?tw \<noteq> [] \<and> take 2 ?dw = [CHR ''('', CHR '' '']"
    by (simp add: removeOldSum_def split: if_splits)
  have "?dw = take 2 ?dw @ drop 2 ?dw"
    by (simp only: append_take_drop_id)
  with cond have dw: "?dw = [CHR ''('', CHR '' ''] @ drop 2 ?dw"
    by simp
  have "r = ?tw @ ?dw"
    by (simp only: takeWhile_dropWhile_id)
  with dw have "r = ?tw @ [CHR ''('', CHR '' ''] @ drop 2 ?dw"
    by simp
  with rl cond have "rev l = CHR '')'' # ?tw @ [CHR ''('', CHR '' ''] @ drop 2 ?dw"
    by simp
  then have "rev (rev l) = rev (CHR '')'' # ?tw @ [CHR ''('', CHR '' ''] @ drop 2 ?dw)"
    by (rule arg_cong)
  then have l: "l = rev (drop 2 ?dw) @ '' ('' @ rev ?tw @ '')''"
    by simp
  have sub: "set (rev ?tw) \<subseteq> set ''0123456789''"
  proof
    fix x
    assume "x \<in> set (rev ?tw)"
    then have "x \<in> set ?tw" by (simp only: set_rev)
    then have "isDigit x" by (rule set_takeWhileD [THEN conjunct2])
    then show "x \<in> set ''0123456789''" by (simp only: isDigit_mem)
  qed
  from cond have "rev ?tw \<noteq> []" by simp
  with sub l show ?thesis by blast
qed

lemma removeOldSum_other:
  assumes no: "\<forall>b ds. ds \<noteq> [] \<and> set ds \<subseteq> set ''0123456789'' \<longrightarrow> l \<noteq> b @ '' ('' @ ds @ '')''"
  shows "removeOldSum l = l"
  using no removeOldSum_changes [of l] by blast

lemma toString_count:
  "n < 2 ^ 53 \<Longrightarrow> toString B (JNum (Finite (of_nat n))) = digits n"
proof -
  assume "n < 2 ^ 53"
  then have "rat_of_nat n < 2 ^ 53"
    by (metis of_nat_less_iff of_nat_numeral of_nat_power)
  then show ?thesis
    by simp
qed

lemma findIndex_Some: "findIndex P xs = Some i \<Longrightarrow> i < length xs \<and> P (xs ! i)"
proof (induction xs arbitrary: i)
  case Nil
  then show ?case by simp
next
  case (Cons x xs)
  then show ?case by (cases "P x") (auto split: if_splits)
qed

lemma enable_relabels:
  assumes md: "find (\<lambda>m. name m = nm) (modes s) = Some m"
    and sel: "selector m = Some sel"
    and app: "appendOptions m = Some f"
    and st: "truthy state"
    and og: "querySelector B sel (dropdown s) = Inr (Some i)"
  shows "\<exists>s'. setModeIconAndOptgroup B ctrl nm state s = Done s' \<and>
           label (dropdown s' ! i) =
             updateSum B (snd (f (dropdown s) (Some i))) (label (dropdown s ! i))"
proof -
  from og obtain P where P: "matches B sel = Some P" and fi: "findIndex P (dropdown s) = Some i"
    by (auto simp: querySelector_def split: option.splits)
  from fi have i: "i < length (dropdown s)"
    by (simp add: findIndex_Some)
  show ?thesis
    using md sel app st og i P
    by (simp add: setModeIconAndOptgroup_def rebuild_def hideShow_def elforEach_def selectorOf_def
        Let_def nth_append)
qed

text \<open>
  C9, as the code has it. A mode with a selector is enabled and its \<open>appendOptions\<close>
  returns a count, a natural number below \<open>2^53\<close>, which prints as its decimal digits
  (non-empty, digits only, giving the count when read back, with no leading zero). When
  the optgroup's label ends in a space and a run of digits in parentheses, that suffix is
  replaced by the count in parentheses and the text before it is kept; when it does not,
  the count in parentheses is appended. Either way the new label ends in one such suffix,
  which the next enabling replaces: counts never pile up.
\<close>

theorem relabel_keeps_one_sum:
  assumes md: "find (\<lambda>m. name m = nm) (modes s) = Some m"
    and sel: "selector m = Some sel"
    and app: "appendOptions m = Some f"
    and st: "truthy state"
    and og: "querySelector B sel (dropdown s) = Inr (Some i)"
    and cnt: "snd (f (dropdown s) (Some i)) = JNum (Finite (of_nat n))"
    and small: "n < 2 ^ 53"
  shows "\<exists>s' d. setModeIconAndOptgroup B ctrl nm state s = Done s' \<and>
           d \<noteq> [] \<and> set d \<subseteq> set ''0123456789'' \<and> decimalValue d = n \<and>
           (n \<noteq> 0 \<longrightarrow> hd d \<noteq> CHR ''0'') \<and>
           (\<forall>base ds. ds \<noteq> [] \<and> set ds \<subseteq> set ''0123456789'' \<and>
                label (dropdown s ! i) = base @ '' ('' @ ds @ '')'' \<longrightarrow>
                label (dropdown s' ! i) = base @ '' ('' @ d @ '')'') \<and>
           ((\<forall>base ds. ds \<noteq> [] \<and> set ds \<subseteq> set ''0123456789'' \<longrightarrow>
                label (dropdown s ! i) \<noteq> base @ '' ('' @ ds @ '')'') \<longrightarrow>
              label (dropdown s' ! i) = label (dropdown s ! i) @ '' ('' @ d @ '')'')"
proof -
  from enable_relabels [OF md sel app st og, of ctrl]
  obtain s' where d: "setModeIconAndOptgroup B ctrl nm state s = Done s'"
    and l: "label (dropdown s' ! i) =
      updateSum B (snd (f (dropdown s) (Some i))) (label (dropdown s ! i))"
    by blast
  from l cnt small have l': "label (dropdown s' ! i) =
      removeOldSum (label (dropdown s ! i)) @ '' ('' @ digits n @ '')''"
    by (simp only: updateSum_def toString_count)
  have dg: "set (digits n) \<subseteq> set ''0123456789''"
  proof
    fix x
    assume "x \<in> set (digits n)"
    then have "isDigit x" by (rule digits_isDigit)
    then show "x \<in> set ''0123456789''" by (simp only: isDigit_mem)
  qed
  have a: "\<forall>base ds. ds \<noteq> [] \<and> set ds \<subseteq> set ''0123456789'' \<and>
                label (dropdown s ! i) = base @ '' ('' @ ds @ '')'' \<longrightarrow>
                label (dropdown s' ! i) = base @ '' ('' @ digits n @ '')''"
  proof (intro allI impI)
    fix base ds
    assume h: "ds \<noteq> [] \<and> set ds \<subseteq> set ''0123456789'' \<and>
                label (dropdown s ! i) = base @ '' ('' @ ds @ '')''"
    then have "removeOldSum (base @ '' ('' @ ds @ '')'') = base"
      by (intro removeOldSum_suffix) simp_all
    with h have "removeOldSum (label (dropdown s ! i)) = base"
      by simp
    with l' show "label (dropdown s' ! i) = base @ '' ('' @ digits n @ '')''"
      by simp
  qed
  have b: "(\<forall>base ds. ds \<noteq> [] \<and> set ds \<subseteq> set ''0123456789'' \<longrightarrow>
                label (dropdown s ! i) \<noteq> base @ '' ('' @ ds @ '')'') \<longrightarrow>
              label (dropdown s' ! i) = label (dropdown s ! i) @ '' ('' @ digits n @ '')''"
  proof
    assume "\<forall>base ds. ds \<noteq> [] \<and> set ds \<subseteq> set ''0123456789'' \<longrightarrow>
                label (dropdown s ! i) \<noteq> base @ '' ('' @ ds @ '')''"
    then have "removeOldSum (label (dropdown s ! i)) = label (dropdown s ! i)"
      by (rule removeOldSum_other)
    with l' show "label (dropdown s' ! i) = label (dropdown s ! i) @ '' ('' @ digits n @ '')''"
      by simp
  qed
  from d dg a b digits_not_Nil [of n] decimalValue_digits [of n] hd_digits [of n]
  show ?thesis
    by blast
qed

subsection \<open>The examples, evaluated\<close>

lemmas mode_defs = onModeIconClick_def setModeIconAndOptgroup_def rebuild_def hideShow_def
  elforEach_def selectorOf_def querySelector_def classListToggle_def
  startsWithPrefix_def TOGGLE_MODE_PREFIX_def getProp_def map_add_def

lemmas show_defs = showEditor_def showEditorOwn_def buildProxy_def hasProp_def initMode_def
  addEventListener_def simpleShowEditor_def classNameTokens_def isSpace_def domIff

lemma example_browser:
  "matches exampleBrowser = scopeMatches" "numberOf exampleBrowser = (\<lambda>v. NaN)"
  "textOf exampleBrowser = (\<lambda>v. [])"
  by (simp_all add: exampleBrowser_def)

lemmas example_defs = example_browser scopeMatches_def defaultSelector_def
  operatorsMode_def columnsMode_def valuesMode_def optionEl_def plainObject_names

lemmas label_defs = updateSum_def removeOldSum_def isDigit_def

lemma digits_small: "n < 10 \<Longrightarrow> digits n = [digitChar n]"
  by (subst digits.simps) simp

lemma outcome_Done: "threw r = None \<Longrightarrow> r = Done (stateOf r)"
  by (cases r) simp_all

lemma shownTwoPlain_parts:
  "threw (showEditor exampleBrowser simpleShowEditor twoPlainModes) = None \<and>
   modes shownTwoPlain = [operatorsMode, columnsMode] \<and>
   menuModes shownTwoPlain ''operators'' = Some (JNum (Finite 1)) \<and>
   menuModes shownTwoPlain ''columns'' = Some (JNum (Finite 0)) \<and>
   objectPrototype shownTwoPlain = plainObject \<and>
   controls shownTwoPlain =
     [\<lparr>tagName = ''SPAN'', classList = [''toggle-mode-operators'', ''active''],
       label = [], display = None\<rparr>,
      \<lparr>tagName = ''SPAN'', classList = [''toggle-mode-columns''], label = [], display = None\<rparr>] \<and>
   dropdown shownTwoPlain = [(optionEl ''='')\<lparr>display := Some ''none''\<rparr>] \<and>
   transitionInProgress shownTwoPlain = False"
  by (simp add: shownTwoPlain_def twoPlainModes_def closedEditor_def show_defs mode_defs
      example_defs Let_def)

lemma shownOneGroup_parts:
  "threw (showEditor exampleBrowser simpleShowEditor oneGroupMode) = None \<and>
   modes shownOneGroup = [valuesMode] \<and>
   menuModes shownOneGroup = [''values'' \<mapsto> JNum (Finite 1)] \<and>
   objectPrototype shownOneGroup = plainObject \<and>
   controls shownOneGroup =
     [\<lparr>tagName = ''SPAN'', classList = [''toggle-mode-values'', ''active''],
       label = [], display = None\<rparr>] \<and>
   dropdown shownOneGroup =
     [\<lparr>tagName = ''OPTGROUP'', classList = [''submenu-values''], label = ''Values (3)'',
       display = None\<rparr>,
      optionEl ''a'', optionEl ''b'', optionEl ''c'']"
  by (simp add: shownOneGroup_def oneGroupMode_def closedEditor_def show_defs mode_defs
      example_defs Let_def label_defs digits_small digitChar_def)

lemma shownBigFlag_parts:
  "threw (showEditor exampleBrowser simpleShowEditor bigFlagMode) = None \<and>
   modes shownBigFlag = [valuesMode] \<and>
   menuModes shownBigFlag = [''values'' \<mapsto> JNum (Finite 4294967296)] \<and>
   objectPrototype shownBigFlag = plainObject \<and>
   controls shownBigFlag =
     [\<lparr>tagName = ''SPAN'', classList = [''toggle-mode-values'', ''active''],
       label = [], display = None\<rparr>] \<and>
   dropdown shownBigFlag =
     [\<lparr>tagName = ''OPTGROUP'', classList = [''submenu-values''], label = ''Values (3)'',
       display = None\<rparr>,
      optionEl ''a'', optionEl ''b'', optionEl ''c'']"
  by (simp add: shownBigFlag_def bigFlagMode_def closedEditor_def show_defs mode_defs
      example_defs Let_def label_defs digits_small digitChar_def)

lemma shownUncounted_parts:
  "threw (showEditor exampleBrowser simpleShowEditor uncountedEditor) = None \<and>
   modes shownUncounted = [uncountedMode] \<and>
   menuModes shownUncounted = [''values'' \<mapsto> JNum (Finite 1)] \<and>
   objectPrototype shownUncounted = plainObject \<and>
   controls shownUncounted =
     [\<lparr>tagName = ''SPAN'', classList = [''toggle-mode-values'', ''active''],
       label = [], display = None\<rparr>] \<and>
   dropdown shownUncounted =
     [\<lparr>tagName = ''OPTGROUP'', classList = [''submenu-values''], label = ''Values (undefined)'',
       display = None\<rparr>,
      optionEl ''a'']"
  by (simp add: shownUncounted_def uncountedEditor_def uncountedMode_def closedEditor_def
      show_defs mode_defs example_defs Let_def label_defs)

theorem relabel_keeps_one_sum_witness:
  "label (dropdown shownOneGroup ! 0) = ''Values (3)'' \<and>
   (\<exists>s'. setModeIconAndOptgroup exampleBrowser 0 ''values'' (JNum (Finite 1)) shownOneGroup = Done s' \<and>
         label (dropdown s' ! 0) = ''Values (6)'')"
proof -
  let ?f = "\<lambda>els optgroup. ([optionEl ''a'', optionEl ''b'', optionEl ''c''],
      JNum (Finite (of_nat (length (els :: element list) + 2))))"
  have md: "find (\<lambda>m. name m = ''values'') (modes shownOneGroup) = Some valuesMode"
    by (simp add: shownOneGroup_parts valuesMode_def)
  have sel: "selector valuesMode = Some ''optgroup.submenu-values''"
    by (simp add: valuesMode_def)
  have app: "appendOptions valuesMode = Some ?f"
    by (simp add: valuesMode_def)
  have st: "truthy (JNum (Finite 1))"
    by simp
  have og: "querySelector exampleBrowser ''optgroup.submenu-values'' (dropdown shownOneGroup) =
      Inr (Some 0)"
    by (simp add: shownOneGroup_parts querySelector_def exampleBrowser_def scopeMatches_def
        defaultSelector_def)
  have cnt: "snd (?f (dropdown shownOneGroup) (Some 0)) = JNum (Finite (of_nat 6))"
    by (simp add: shownOneGroup_parts)
  have small: "(6::nat) < 2 ^ 53"
    by simp
  have l: "label (dropdown shownOneGroup ! 0) = ''Values'' @ '' ('' @ ''3'' @ '')''"
    by (simp add: shownOneGroup_parts)
  have three: "''3'' \<noteq> [] \<and> set ''3'' \<subseteq> set ''0123456789''"
    by simp
  from relabel_keeps_one_sum [OF md sel app st og cnt small, of 0]
  obtain s' d where ret: "setModeIconAndOptgroup exampleBrowser 0 ''values'' (JNum (Finite 1))
        shownOneGroup = Done s'"
    and d: "d \<noteq> []" "set d \<subseteq> set ''0123456789''" "decimalValue d = 6" "hd d \<noteq> CHR ''0''"
    and lab: "\<forall>base ds. ds \<noteq> [] \<and> set ds \<subseteq> set ''0123456789'' \<and>
                label (dropdown shownOneGroup ! 0) = base @ '' ('' @ ds @ '')'' \<longrightarrow>
                label (dropdown s' ! 0) = base @ '' ('' @ d @ '')''"
    by auto
  from lab l three have l': "label (dropdown s' ! 0) = ''Values'' @ '' ('' @ d @ '')''"
    by blast
  have "label (dropdown (stateOf (setModeIconAndOptgroup exampleBrowser 0 ''values''
      (JNum (Finite 1)) shownOneGroup)) ! 0) = ''Values (6)''"
    by (simp add: shownOneGroup_parts mode_defs example_defs label_defs digits_small
        digitChar_def Let_def)
  with ret have "label (dropdown s' ! 0) = ''Values (6)''"
    by simp
  with l ret show ?thesis
    by auto
qed

text \<open>
  C9 as stated fails. The mode's \<open>appendOptions\<close> returns nothing. \<open>showEditor\<close>
  enables the mode and the optgroup's label becomes \<open>Values (undefined)\<close>. One click
  on the toggle disables the mode and a second enables it again: the label is then
  \<open>Values (undefined) (undefined)\<close>, the first suffix not taken off.
\<close>

theorem piled_suffix_counterexample:
  "threw (showEditor exampleBrowser simpleShowEditor uncountedEditor) = None \<and>
   selector uncountedMode = Some ''optgroup.submenu-values'' \<and>
   label (dropdown shownUncounted ! 0) = ''Values (undefined)'' \<and>
   threw (onModeIconClick exampleBrowser (Control 0) shownUncounted) = None \<and>
   threw (onModeIconClick exampleBrowser (Control 0)
           (stateOf (onModeIconClick exampleBrowser (Control 0) shownUncounted))) = None \<and>
   label (dropdown (stateOf (onModeIconClick exampleBrowser (Control 0)
        (stateOf (onModeIconClick exampleBrowser (Control 0) shownUncounted)))) ! 0) =
     ''Values (undefined) (undefined)''"
  by (simp add: shownUncounted_parts uncountedMode_def mode_defs example_defs big_flag Let_def
      label_defs)

subsection \<open>Toggling a mode twice\<close>

lemma groupDisplay_map:
  "groupDisplay P d (map (\<lambda>el. if P el then el\<lparr>display := d\<rparr> else el) els)"
  by (induction els) (simp_all add: groupDisplay_def)

lemma hideShow_group:
  "hideShow B (Some m) d s = Done s' \<Longrightarrow> matches B (selectorOf m) = Some P \<Longrightarrow>
   groupDisplay P d (dropdown s')"
  by (auto simp: hideShow_def elforEach_def groupDisplay_map)

lemma setModeIconAndOptgroup_group:
  assumes "setModeIconAndOptgroup B ctrl nm state s = Done s'"
    and "find (\<lambda>m. name m = nm) (modes s) = Some m"
    and "matches B (selectorOf m) = Some P"
  shows "groupDisplay P (displayOf state) (dropdown s')"
proof (cases "truthy state")
  case False
  with assms show ?thesis
    by (simp add: setModeIconAndOptgroup_def Let_def displayOf_def hideShow_group)
next
  case True
  with assms show ?thesis
    by (auto simp: setModeIconAndOptgroup_def Let_def displayOf_def hideShow_group
        split: outcome.splits)
qed

lemma find_snoc: "\<not> P y \<Longrightarrow> find P (xs @ [y]) = find P xs"
  by (induction xs) simp_all

lemma find_removeAll: "\<not> P y \<Longrightarrow> find P (removeAll y xs) = find P xs"
  by (induction xs) auto

lemma find_classListToggle:
  "\<not> P token \<Longrightarrow> find P (classListToggle token force cs) = find P cs"
  by (simp add: classListToggle_def find_snoc find_removeAll)

lemma not_prefix_active: "\<not> startsWithPrefix ''active''"
  by (simp add: startsWithPrefix_def TOGGLE_MODE_PREFIX_def)

lemma getProp_own: "own k = Some v \<Longrightarrow> getProp own inherited k = v"
  by (simp add: getProp_def map_add_def)

lemma click_Done:
  assumes c: "ctrl < length (controls s)"
    and span: "tagName (controls s ! ctrl) = ''SPAN''"
    and cls: "find startsWithPrefix (classList (controls s ! ctrl)) = Some (TOGGLE_MODE_PREFIX @ nm)"
    and md: "find (\<lambda>m. name m = nm) (modes s) = Some m"
    and valid: "matches B (selectorOf m) = Some P"
    and d: "onModeIconClick B (Control ctrl) s = Done s1"
  shows "ctrl < length (controls s1) \<and> tagName (controls s1 ! ctrl) = ''SPAN'' \<and>
         find startsWithPrefix (classList (controls s1 ! ctrl)) = Some (TOGGLE_MODE_PREFIX @ nm) \<and>
         modes s1 = modes s \<and> objectPrototype s1 = objectPrototype s \<and>
         menuModes s1 =
           (menuModes s)(nm \<mapsto> xor1 B (getProp (menuModes s) (objectPrototype s) nm)) \<and>
         groupDisplay P (displayOf (xor1 B (getProp (menuModes s) (objectPrototype s) nm)))
           (dropdown s1)"
proof -
  let ?x = "xor1 B (getProp (menuModes s) (objectPrototype s) nm)"
  let ?t = "s\<lparr>menuModes := (menuModes s)(nm \<mapsto> ?x)\<rparr>"
  from span cls d have e: "setModeIconAndOptgroup B ctrl nm ?x ?t = Done s1"
    by (simp add: onModeIconClick_def Let_def)
  from md have md': "find (\<lambda>m. name m = nm) (modes ?t) = Some m" by simp
  have g: "groupDisplay P (displayOf ?x) (dropdown s1)"
    by (rule setModeIconAndOptgroup_group [OF e md' valid])
  from setModeIconAndOptgroup_keeps [of B ctrl nm ?x ?t] e
  have k: "menuModes s1 = menuModes ?t" "modes s1 = modes ?t"
    "objectPrototype s1 = objectPrototype ?t"
    "controls s1 = (controls ?t)[ctrl := (controls ?t ! ctrl)
        \<lparr>classList := classListToggle ''active'' (truthy ?x) (classList (controls ?t ! ctrl))\<rparr>]"
    by simp_all
  from k c span cls g show ?thesis
    by (simp add: find_classListToggle not_prefix_active)
qed

text \<open>
  C2, as the code has it. Two clicks in succession on the toggle of a mode that
  \<open>this.modes\<close> lists and \<open>menuModes\<close> holds, both returning, leave the mode's flag
  in \<open>menuModes\<close> as the 32-bit integer that \<open>^=\<close> reads from the flag it was, and
  every element that the mode's selector matches with the display that integer calls
  for: shown when it is not 0, \<open>none\<close> when it is 0. When the flag was such an integer
  already (as the 0 and 1 that a click stores are), \<open>menuModes\<close> is as it was and the
  display is the one the flag calls for: the display the group had before the first
  click whenever the group agreed with the flag then, as it does when no other mode's
  selector matches its elements.
\<close>

theorem toggle_twice_restores_group:
  assumes c: "ctrl < length (controls s)"
    and span: "tagName (controls s ! ctrl) = ''SPAN''"
    and cls: "find startsWithPrefix (classList (controls s ! ctrl)) = Some (TOGGLE_MODE_PREFIX @ nm)"
    and md: "find (\<lambda>m. name m = nm) (modes s) = Some m"
    and valid: "matches B (selectorOf m) = Some P"
    and fl: "menuModes s nm = Some v"
    and d1: "onModeIconClick B (Control ctrl) s = Done s1"
    and d2: "onModeIconClick B (Control ctrl) s1 = Done s2"
  shows "menuModes s2 = (menuModes s)(nm \<mapsto> int32Value (toInt32 B v)) \<and>
         groupDisplay P (if toInt32 B v = 0 then Some ''none'' else None) (dropdown s2) \<and>
         (v = int32Value (toInt32 B v) \<longrightarrow>
            menuModes s2 = menuModes s \<and> groupDisplay P (displayOf v) (dropdown s2))"
proof -
  note a = click_Done [OF c span cls md valid d1]
  from a md have md1: "find (\<lambda>m. name m = nm) (modes s1) = Some m" by simp
  from a have c1: "ctrl < length (controls s1)"
    and span1: "tagName (controls s1 ! ctrl) = ''SPAN''"
    and cls1: "find startsWithPrefix (classList (controls s1 ! ctrl)) = Some (TOGGLE_MODE_PREFIX @ nm)"
    by simp_all
  note b = click_Done [OF c1 span1 cls1 md1 valid d2]
  from fl have g0: "getProp (menuModes s) (objectPrototype s) nm = v"
    by (rule getProp_own)
  from a g0 have m1: "menuModes s1 nm = Some (xor1 B v)" by simp
  then have g1: "getProp (menuModes s1) (objectPrototype s1) nm = xor1 B v"
    by (rule getProp_own)
  have x: "xor1 B (xor1 B v) = int32Value (toInt32 B v)"
    by (rule xor1_twice)
  from a b g0 g1 x have mm: "menuModes s2 = (menuModes s)(nm \<mapsto> int32Value (toInt32 B v))"
    by (auto simp: fun_eq_iff)
  from b g1 x have gd: "groupDisplay P (displayOf (int32Value (toInt32 B v))) (dropdown s2)"
    by simp
  have dv: "displayOf (int32Value (toInt32 B v)) =
      (if toInt32 B v = 0 then Some ''none'' else None)"
    by (simp add: displayOf_def truthy_int32Value)
  have "v = int32Value (toInt32 B v) \<longrightarrow>
      menuModes s2 = menuModes s \<and> groupDisplay P (displayOf v) (dropdown s2)"
  proof
    assume e: "v = int32Value (toInt32 B v)"
    from mm fl e have "menuModes s2 = menuModes s"
      by (auto simp: fun_eq_iff)
    moreover from gd e have "groupDisplay P (displayOf v) (dropdown s2)"
      by simp
    ultimately show "menuModes s2 = menuModes s \<and> groupDisplay P (displayOf v) (dropdown s2)"
      by simp
  qed
  with mm gd dv show ?thesis by simp
qed

theorem toggle_twice_restores_group_witness:
  "(0::nat) < length (controls shownOneGroup) \<and>
   menuModes shownOneGroup ''values'' = Some (JNum (Finite 1)) \<and>
   JNum (Finite 1) = int32Value (toInt32 exampleBrowser (JNum (Finite 1))) \<and>
   groupDisplay (\<lambda>el. tagName el = ''OPTGROUP'' \<and> ''submenu-values'' \<in> set (classList el)) None
     (dropdown shownOneGroup) \<and>
   menuModes
     (stateOf (onModeIconClick exampleBrowser (Control 0)
        (stateOf (onModeIconClick exampleBrowser (Control 0) shownOneGroup)))) =
     menuModes shownOneGroup \<and>
   groupDisplay (\<lambda>el. tagName el = ''OPTGROUP'' \<and> ''submenu-values'' \<in> set (classList el)) None
     (dropdown (stateOf (onModeIconClick exampleBrowser (Control 0)
        (stateOf (onModeIconClick exampleBrowser (Control 0) shownOneGroup)))))"
proof -
  let ?s1 = "stateOf (onModeIconClick exampleBrowser (Control 0) shownOneGroup)"
  let ?s2 = "stateOf (onModeIconClick exampleBrowser (Control 0) ?s1)"
  let ?P = "\<lambda>el. tagName el = ''OPTGROUP'' \<and> ''submenu-values'' \<in> set (classList el)"
  have c: "0 < length (controls shownOneGroup)"
    by (simp add: shownOneGroup_parts)
  have span: "tagName (controls shownOneGroup ! 0) = ''SPAN''"
    by (simp add: shownOneGroup_parts)
  have cls: "find startsWithPrefix (classList (controls shownOneGroup ! 0)) =
      Some (TOGGLE_MODE_PREFIX @ ''values'')"
    by (simp add: shownOneGroup_parts startsWithPrefix_def TOGGLE_MODE_PREFIX_def)
  have md: "find (\<lambda>m. name m = ''values'') (modes shownOneGroup) = Some valuesMode"
    by (simp add: shownOneGroup_parts valuesMode_def)
  have valid: "matches exampleBrowser (selectorOf valuesMode) = Some ?P"
    by (simp add: exampleBrowser_def scopeMatches_def selectorOf_def valuesMode_def
        defaultSelector_def)
  have fl: "menuModes shownOneGroup ''values'' = Some (JNum (Finite 1))"
    by (simp add: shownOneGroup_parts)
  have d1: "onModeIconClick exampleBrowser (Control 0) shownOneGroup = Done ?s1"
    by (rule outcome_Done) (simp add: shownOneGroup_parts mode_defs example_defs big_flag Let_def)
  have d2: "onModeIconClick exampleBrowser (Control 0) ?s1 = Done ?s2"
    by (rule outcome_Done)
      (simp add: shownOneGroup_parts mode_defs example_defs big_flag Let_def label_defs
        digits_small digitChar_def)
  have before: "groupDisplay ?P None (dropdown shownOneGroup)"
    by (simp add: groupDisplay_def shownOneGroup_parts optionEl_def)
  have i: "JNum (Finite 1) = int32Value (toInt32 exampleBrowser (JNum (Finite 1)))"
    by (simp add: toInt32_def int32Value_def)
  have dv: "displayOf (JNum (Finite 1)) = None"
    by (simp add: displayOf_def)
  from toggle_twice_restores_group [OF c span cls md valid fl d1 d2]
  have "JNum (Finite 1) = int32Value (toInt32 exampleBrowser (JNum (Finite 1))) \<longrightarrow>
      menuModes ?s2 = menuModes shownOneGroup \<and>
      groupDisplay ?P (displayOf (JNum (Finite 1))) (dropdown ?s2)"
    by (elim conjE)
  from this i
  have "menuModes ?s2 = menuModes shownOneGroup \<and>
      groupDisplay ?P (displayOf (JNum (Finite 1))) (dropdown ?s2)"
    by (rule mp)
  then have r: "menuModes ?s2 = menuModes shownOneGroup \<and> groupDisplay ?P None (dropdown ?s2)"
    by (simp only: dv)
  from c fl i before r show ?thesis
    by (intro conjI) (elim conjE, assumption)+
qed

text \<open>
  C2 as stated fails, in two ways. Two modes without a selector share the default
  selector; the first is switched on and the second off. \<open>showEditor\<close> sets up the
  first, which appends an option and shows it, and then the second, which hides every
  option. Two clicks on the first mode's toggle, both returning, leave the options shown:
  the group that was hidden before the first click is not hidden after the second. And a
  mode with a selector of its own whose flag in the source is the number \<open>2^32\<close>, which
  is true and reads as the 32-bit integer 0: its optgroup is shown by \<open>showEditor\<close>,
  and after two clicks on its toggle it is hidden and the flag is 0.
\<close>

theorem toggle_twice_counterexample:
  "threw (showEditor exampleBrowser simpleShowEditor twoPlainModes) = None \<and>
   ''operators'' \<in> dom (menuModes shownTwoPlain) \<and>
   scopeMatches defaultSelector =
     Some (\<lambda>el. tagName el = ''OPTION'' \<or> (tagName el = ''OPTGROUP'' \<and> classList el = [])) \<and>
   map display (filter (\<lambda>el. tagName el = ''OPTION'' \<or> (tagName el = ''OPTGROUP'' \<and> classList el = []))
     (dropdown shownTwoPlain)) = [Some ''none''] \<and>
   threw (onModeIconClick exampleBrowser (Control 0) shownTwoPlain) = None \<and>
   threw (onModeIconClick exampleBrowser (Control 0)
           (stateOf (onModeIconClick exampleBrowser (Control 0) shownTwoPlain))) = None \<and>
   map display (filter (\<lambda>el. tagName el = ''OPTION'' \<or> (tagName el = ''OPTGROUP'' \<and> classList el = []))
     (dropdown (stateOf (onModeIconClick exampleBrowser (Control 0)
        (stateOf (onModeIconClick exampleBrowser (Control 0) shownTwoPlain)))))) = [None, None] \<and>
   threw (showEditor exampleBrowser simpleShowEditor bigFlagMode) = None \<and>
   menuModes shownBigFlag ''values'' = Some (JNum (Finite 4294967296)) \<and>
   display (dropdown shownBigFlag ! 0) = None \<and>
   threw (onModeIconClick exampleBrowser (Control 0) shownBigFlag) = None \<and>
   threw (onModeIconClick exampleBrowser (Control 0)
           (stateOf (onModeIconClick exampleBrowser (Control 0) shownBigFlag))) = None \<and>
   menuModes (stateOf (onModeIconClick exampleBrowser (Control 0)
        (stateOf (onModeIconClick exampleBrowser (Control 0) shownBigFlag)))) ''values'' =
     Some (JNum (Finite 0)) \<and>
   display (dropdown (stateOf (onModeIconClick exampleBrowser (Control 0)
        (stateOf (onModeIconClick exampleBrowser (Control 0) shownBigFlag)))) ! 0) = Some ''none''"
  by (simp add: shownTwoPlain_parts shownBigFlag_parts mode_defs example_defs big_flag Let_def
      domIff label_defs digits_small digitChar_def)

subsection \<open>Clicks that find no mode\<close>




subsection \<open>Mode toggles and the transition signal\<close>







end
